theory Spec2Isabelle
  imports Complex_Main "HOL-Library.Word"
begin

section \<open>Errors and results\<close>

text \<open>
  The Python exceptions that \<^verbatim>\<open>kimimaro/utility.py\<close> can raise, directly or through
  numpy indexing and dictionary lookup. A computation returns \<open>Inl e\<close> when the source
  raises \<open>e\<close> and \<open>Inr v\<close> when it returns \<open>v\<close>.
\<close>

datatype error = KeyError | IndexError | ValueError | AttributeError

type_synonym 'a result = "error + 'a"

definition bind :: "'a result \<Rightarrow> ('a \<Rightarrow> 'b result) \<Rightarrow> 'b result" where
  "bind r f = (case r of Inl e \<Rightarrow> Inl e | Inr v \<Rightarrow> f v)"

section \<open>Vectors\<close>

text \<open>
  Rows of an \<open>(N, 3)\<close> numpy array. Floating point rows are modelled over the reals,
  integer rows over \<open>int\<close>. The rounding error of float32/float64 arithmetic is not
  modelled where only the direction handed to the sampling primitive depends on it; the
  division that decides the voxel of a vertex is a parameter (\<open>np_divide\<close> below).
\<close>

type_synonym vec3 = "real \<times> real \<times> real"
type_synonym ivec3 = "int \<times> int \<times> int"

fun vadd :: "vec3 \<Rightarrow> vec3 \<Rightarrow> vec3" where
  "vadd (a, b, c) (d, e, f) = (a + d, b + e, c + f)"

fun vsub :: "vec3 \<Rightarrow> vec3 \<Rightarrow> vec3" where
  "vsub (a, b, c) (d, e, f) = (a - d, b - e, c - f)"

fun vdiv :: "vec3 \<Rightarrow> real \<Rightarrow> vec3" where
  "vdiv (a, b, c) k = (a / k, b / k, c / k)"

fun isub :: "ivec3 \<Rightarrow> ivec3 \<Rightarrow> ivec3" where
  "isub (a, b, c) (d, e, f) = (a - d, b - e, c - f)"

fun iadd :: "ivec3 \<Rightarrow> ivec3 \<Rightarrow> ivec3" where
  "iadd (a, b, c) (d, e, f) = (a + d, b + e, c + f)"

fun to_float :: "ivec3 \<Rightarrow> vec3" where
  "to_float (a, b, c) = (real_of_int a, real_of_int b, real_of_int c)"

text \<open>\<^verbatim>\<open>np.linalg.norm(normal)\<close> of one row.\<close>

fun linalg_norm :: "vec3 \<Rightarrow> real" where
  "linalg_norm (a, b, c) = sqrt (a * a + b * b + c * c)"

section \<open>The rolling average: \<^verbatim>\<open>moving_average\<close>\<close>

text \<open>Python's \<^verbatim>\<open>int(x)\<close> on a float: truncation towards zero.\<close>

definition py_int :: "real \<Rightarrow> int" where
  "py_int x = (if 0 \<le> x then \<lfloor>x\<rfloor> else \<lceil>x\<rceil>)"

text \<open>\<^verbatim>\<open>np.cumsum(a, dtype=float, axis=0)\<close>: the running sums of the rows.\<close>

fun cumsum_from :: "vec3 \<Rightarrow> vec3 list \<Rightarrow> vec3 list" where
  "cumsum_from s [] = []"
| "cumsum_from s (x # xs) = vadd s x # cumsum_from (vadd s x) xs"

definition cumsum :: "vec3 list \<Rightarrow> vec3 list" where
  "cumsum xs = cumsum_from (0, 0, 0) xs"

text \<open>
  \<^verbatim>\<open>np.concatenate([ [a[0]] * k, a, [a[-1]] * m ])\<close> for an \<open>(N, 3)\<close> array \<open>a\<close>.
  \<^verbatim>\<open>a[0]\<close> and \<^verbatim>\<open>a[-1]\<close> raise IndexError on an empty array. A Python list
  repeated zero times is the empty list \<^verbatim>\<open>[]\<close>, which numpy reads as a one-dimensional
  array of shape \<open>(0,)\<close>; \<^verbatim>\<open>np.concatenate\<close> demands the same number of dimensions of
  all its arguments and raises ValueError when a one-dimensional block stands beside
  the two-dimensional \<open>a\<close>.
\<close>

definition concatenate_padded :: "nat \<Rightarrow> vec3 list \<Rightarrow> nat \<Rightarrow> vec3 list result" where
  "concatenate_padded k a m =
     (case a of
        [] \<Rightarrow> Inl IndexError
      | _ # _ \<Rightarrow>
          if k = 0 \<or> m = 0 then Inl ValueError
          else Inr (replicate k (hd a) @ a @ replicate m (last a)))"

text \<open>
  \<^verbatim>\<open>
  def moving_average(a, n):
    if n <= 0:
      raise ValueError(...)
    elif n == 1:
      return a
    mirror = (len(a) - (len(a) - n + 1)) / 2
    extra = 0
    if mirror != int(mirror):
      extra = 1
    mirror = int(mirror)
    a = np.concatenate([ [a[0] ] * (mirror + extra), a, [ a[-1] ] * mirror ])
    ret = np.cumsum(a, dtype=float, axis=0)
    ret[n:] = ret[n:] - ret[:-n]
    return ret[n - 1:] / n
  \<close>
\<close>

definition moving_average :: "vec3 list \<Rightarrow> int \<Rightarrow> vec3 list result" where
  "moving_average a n =
     (if n \<le> 0 then Inl ValueError
      else if n = 1 then Inr a
      else
        let len = int (length a);
            mirror = real_of_int (len - (len - n + 1)) / 2;
            extra = (if mirror \<noteq> real_of_int (py_int mirror) then 1 else 0);
            mirror_i = py_int mirror
        in bind (concatenate_padded (nat (mirror_i + extra)) a (nat mirror_i))
             (\<lambda>padded.
                let ret = cumsum padded;
                    ret' = take (nat n) ret
                           @ map2 vsub (drop (nat n) ret) (take (length ret - nat n) ret)
                in Inr (map (\<lambda>v. vdiv v (real_of_int n)) (drop (nat (n - 1)) ret'))))"

section \<open>Label volumes\<close>

text \<open>
  A three-dimensional numpy array of labels: its shape, its logical content (the element
  at index \<open>[x, y, z]\<close>, whatever the strides are), the two contiguity flags, and
  whether its dtype is \<open>bool\<close> (then the elements are 0 for False and 1 for True).
\<close>

type_synonym index3 = "nat \<times> nat \<times> nat"

record ndarray =
  shape :: index3
  item :: "index3 \<Rightarrow> int"
  c_contiguous :: bool
  f_contiguous :: bool
  dtype_bool :: bool

fun rev3 :: "'a \<times> 'a \<times> 'a \<Rightarrow> 'a \<times> 'a \<times> 'a" where
  "rev3 (a, b, c) = (c, b, a)"

text \<open>\<^verbatim>\<open>labels.T\<close>: the axes reversed, the same memory read in the other order.\<close>

definition transpose_T :: "ndarray \<Rightarrow> ndarray" where
  "transpose_T A =
     A\<lparr> shape := rev3 (shape A),
        item := (\<lambda>i. item A (rev3 i)),
        c_contiguous := f_contiguous A,
        f_contiguous := c_contiguous A \<rparr>"

text \<open>All indices of an array of the given shape.\<close>

fun indices :: "index3 \<Rightarrow> index3 list" where
  "indices (sx, sy, sz) =
     concat (map (\<lambda>x. concat (map (\<lambda>y. map (\<lambda>z. (x, y, z)) [0..<sz]) [0..<sy])) [0..<sx])"

text \<open>\<^verbatim>\<open>input.max()\<close>: numpy raises ValueError on an array without elements.\<close>

definition amax :: "ndarray \<Rightarrow> int result" where
  "amax A =
     (if indices (shape A) = [] then Inl ValueError
      else Inr (Max (set (map (item A) (indices (shape A))))))"

type_synonym slice = "int \<times> int"
type_synonym slices = "slice \<times> slice \<times> slice"

fun fst3 :: "'a \<times> 'b \<times> 'c \<Rightarrow> 'a" where "fst3 (a, b, c) = a"
fun snd3 :: "'a \<times> 'b \<times> 'c \<Rightarrow> 'b" where "snd3 (a, b, c) = b"
fun thd3 :: "'a \<times> 'b \<times> 'c \<Rightarrow> 'c" where "thd3 (a, b, c) = c"

text \<open>The half-open extent of a non-empty list of coordinates along one axis.\<close>

definition extent :: "nat list \<Rightarrow> slice" where
  "extent xs = (int (Min (set xs)), int (Max (set xs)) + 1)"

text \<open>
  Modelled from the spec: \<^verbatim>\<open>scipy.ndimage.find_objects\<close> is an external primitive
  (spec 4.2 and 6, \<open>findBoundingBoxes\<close>): for each label \<open>L\<close> in \<open>[1, max_label]\<close>, in label
  order, either \<open>None\<close> (label absent) or the minimal voxel-index bounding box covering
  all voxels equal to \<open>L\<close>, one slice per axis. \<open>max_label\<close> is the maximum of the array.
\<close>

definition voxels_of :: "ndarray \<Rightarrow> int \<Rightarrow> index3 list" where
  "voxels_of A L = filter (\<lambda>i. item A i = L) (indices (shape A))"

definition bounding_box :: "ndarray \<Rightarrow> int \<Rightarrow> slices option" where
  "bounding_box A L =
     (case voxels_of A L of
        [] \<Rightarrow> None
      | v # vs \<Rightarrow>
          Some (extent (map fst3 (v # vs)),
                extent (map snd3 (v # vs)),
                extent (map thd3 (v # vs))))"

definition scipy_find_objects :: "ndarray \<Rightarrow> slices option list result" where
  "scipy_find_objects A = bind (amax A) (\<lambda>max_label. Inr (map (bounding_box A) [1..max_label]))"

text \<open>
  \<^verbatim>\<open>
  def find_objects(labels):
    if labels.flags['C_CONTIGUOUS']:
      return scipy.ndimage.find_objects(labels)
    else:
      all_slices = scipy.ndimage.find_objects(labels.T)
      return [ (slcs and slcs[::-1]) for slcs in all_slices ]
  \<close>
  \<^verbatim>\<open>slcs and slcs[::-1]\<close> is \<open>None\<close> for \<open>None\<close> and the reversed tuple otherwise.
\<close>

definition find_objects :: "ndarray \<Rightarrow> slices option list result" where
  "find_objects labels =
     (if c_contiguous labels then scipy_find_objects labels
      else bind (scipy_find_objects (transpose_T labels))
             (\<lambda>all_slices. Inr (map (map_option rev3) all_slices)))"

text \<open>
  Modelled from the spec: \<^verbatim>\<open>fastremap.renumber\<close> is an external primitive (spec 4.1
  and 6): every id present in the volume is remapped to a dense positive integer
  starting at 1, the background 0 stays 0, and the returned mapping sends each original
  id present in the volume (and 0) to its dense id. Ids are numbered in the order in
  which a scan of the volume first meets them.
\<close>

fun renumber_scan :: "int list \<Rightarrow> (int \<rightharpoonup> int) \<Rightarrow> int \<Rightarrow> (int \<rightharpoonup> int)" where
  "renumber_scan [] m nxt = m"
| "renumber_scan (v # vs) m nxt =
     (case m v of
        Some _ \<Rightarrow> renumber_scan vs m nxt
      | None \<Rightarrow> renumber_scan vs (m(v \<mapsto> nxt)) (nxt + 1))"

definition renumber :: "ndarray \<Rightarrow> ndarray \<times> (int \<rightharpoonup> int)" where
  "renumber A =
     (let remapping = renumber_scan (map (item A) (indices (shape A))) [0 \<mapsto> 0] 1
      in (A\<lparr> item := (\<lambda>i. case remapping (item A i) of Some v \<Rightarrow> v | None \<Rightarrow> 0) \<rparr>,
          remapping))"

section \<open>Regions of interest and cropped masks\<close>

text \<open>
  The \<^verbatim>\<open>cloudvolume.Bbox\<close> operations the orchestrator calls (spec 4.3, step 2):
  a box is its lower and upper corner; \<^verbatim>\<open>volume()\<close> is the product of its side
  lengths; \<^verbatim>\<open>grow(1)\<close> moves the lower corner down and the upper corner up by one;
  \<^verbatim>\<open>Vec.clamp(v, lo, hi)\<close> is the componentwise \<open>min (max v lo) hi\<close>.
\<close>

record bbox =
  minpt :: ivec3
  maxpt :: ivec3

fun from_slices :: "slices \<Rightarrow> bbox" where
  "from_slices ((a0, b0), (a1, b1), (a2, b2)) = \<lparr> minpt = (a0, a1, a2), maxpt = (b0, b1, b2) \<rparr>"

definition bbox_volume :: "bbox \<Rightarrow> int" where
  "bbox_volume roi = (case isub (maxpt roi) (minpt roi) of (dx, dy, dz) \<Rightarrow> dx * dy * dz)"

definition grow :: "bbox \<Rightarrow> int \<Rightarrow> bbox" where
  "grow roi amt =
     \<lparr> minpt = isub (minpt roi) (amt, amt, amt), maxpt = iadd (maxpt roi) (amt, amt, amt) \<rparr>"

fun vec_clamp :: "ivec3 \<Rightarrow> ivec3 \<Rightarrow> ivec3 \<Rightarrow> ivec3" where
  "vec_clamp (x, y, z) (lx, ly, lz) (hx, hy, hz) =
     (min (max x lx) hx, min (max y ly) hy, min (max z lz) hz)"

fun to_slices :: "bbox \<Rightarrow> slices" where
  "to_slices roi =
     (case (minpt roi, maxpt roi) of
        ((a0, a1, a2), (b0, b1, b2)) \<Rightarrow> ((a0, b0), (a1, b1), (a2, b2)))"

text \<open>
  A basic slice \<^verbatim>\<open>a[start:stop]\<close> along an axis of length \<open>n\<close>: numpy moves a negative
  bound up by \<open>n\<close>, clips both bounds to \<open>[0, n]\<close>, and an empty range has length 0.
  The result is the first index taken and the number of indices taken.
\<close>

definition slice_norm :: "nat \<Rightarrow> int \<Rightarrow> int" where
  "slice_norm n i = (if i < 0 then max 0 (i + int n) else min i (int n))"

definition slice_range :: "nat \<Rightarrow> slice \<Rightarrow> nat \<times> nat" where
  "slice_range n s =
     (case s of (start, stop) \<Rightarrow>
        (nat (slice_norm n start), nat (slice_norm n stop - slice_norm n start)))"

text \<open>The binary image of one object: a boolean array, its shape and its elements.\<close>

record mask =
  mshape :: index3
  mitem :: "index3 \<Rightarrow> bool"

text \<open>\<^verbatim>\<open>np.asfortranarray(all_labels[slices] == label)\<close>.\<close>

definition crop_equals :: "ndarray \<Rightarrow> slices \<Rightarrow> int \<Rightarrow> mask" where
  "crop_equals all_labels slcs label =
     (case (shape all_labels, slcs) of
        ((nx, ny, nz), (s0, s1, s2)) \<Rightarrow>
          let (x0, lx) = slice_range nx s0;
              (y0, ly) = slice_range ny s1;
              (z0, lz) = slice_range nz s2
          in \<lparr> mshape = (lx, ly, lz),
               mitem = (\<lambda>(x, y, z). item all_labels (x0 + x, y0 + y, z0 + z) = label) \<rparr>)"

section \<open>Skeletons\<close>

text \<open>
  A \<^verbatim>\<open>cloudvolume.Skeleton\<close> as the orchestrator uses it: id, vertices in physical
  space, edges, the list of attribute descriptors, and the two per-vertex arrays, which
  are attributes the object has (\<open>Some\<close>) or lacks (\<open>None\<close>).
\<close>

record attribute =
  attr_id :: string
  data_type :: string
  num_components :: nat

record skeleton =
  skel_id :: int
  vertices :: "vec3 list"
  edges :: "(nat \<times> nat) list"
  extra_attributes :: "attribute list"
  cross_sectional_area_attr :: "real list option"
  cross_sectional_area_contacts :: "8 word list option"

text \<open>\<^verbatim>\<open>skeletons: Union[Dict[int,Skeleton], List[Skeleton], Skeleton]\<close>\<close>

datatype skeletons =
  SkelDict "(int \<times> skeleton) list"
| SkelSingle skeleton
| SkelList "skeleton list"

text \<open>
  The external collaborators (spec 6), taken as parameters: the plane-sampling primitive
  \<^verbatim>\<open>xs3d.cross_sectional_area(binimg, vert, normal, anisotropy, return_contact=True)\<close>,
  the hole filler \<^verbatim>\<open>fill_voids.fill\<close>, and the path decomposition \<^verbatim>\<open>skel.paths()\<close>,
  which reads the skeleton's vertices and edges and returns each path as the sequence
  of its vertices in physical space.

  The fourth parameter is numpy's float32 division \<^verbatim>\<open>x / y\<close> of two array elements.
  The quotient of a coordinate by the voxel spacing decides, after rounding, which voxel
  a vertex falls in, and the float32 quotient can round to another integer than the
  exact one (a float32 quotient that lands on a tie). So this division is not replaced
  by the division of the reals: it is a parameter, and what is proved for every \<open>ext\<close>
  holds for the division numpy performs.
\<close>

record ext =
  xs3d_cross_sectional_area :: "mask \<Rightarrow> ivec3 \<Rightarrow> vec3 \<Rightarrow> vec3 \<Rightarrow> real \<times> 8 word"
  fill_voids_fill :: "mask \<Rightarrow> mask"
  skel_paths :: "vec3 list \<Rightarrow> (nat \<times> nat) list \<Rightarrow> vec3 list list"
  np_divide :: "real \<Rightarrow> real \<Rightarrow> real"

section \<open>Rasterization\<close>

text \<open>\<^verbatim>\<open>np.round\<close>: to the nearest integer, a tie to the even neighbour.\<close>

definition np_round :: "real \<Rightarrow> int" where
  "np_round x =
     (let f = \<lfloor>x\<rfloor>; d = x - real_of_int f
      in if d < 1 / 2 then f else if 1 / 2 < d then f + 1 else if even f then f else f + 1)"

fun round3 :: "vec3 \<Rightarrow> ivec3" where
  "round3 (a, b, c) = (np_round a, np_round b, np_round c)"

text \<open>\<^verbatim>\<open>v / anisotropy\<close> for one row \<open>v\<close>: numpy divides element by element.\<close>

fun divide3 :: "ext \<Rightarrow> vec3 \<Rightarrow> vec3 \<Rightarrow> vec3" where
  "divide3 E (a, b, c) (d, e, f) = (np_divide E a d, np_divide E b e, np_divide E c f)"

text \<open>
  \<^verbatim>\<open>(v / anisotropy).round().astype(int) - roi.minpt\<close> for one row \<open>v\<close>. Rounding a
  float32 to the nearest integer and converting it are exact. (A zero component of the
  anisotropy makes numpy produce inf or nan, whose conversion to an integer is platform
  dependent; the data model requires positive spacing.)
\<close>

definition rasterize :: "ext \<Rightarrow> vec3 \<Rightarrow> ivec3 \<Rightarrow> vec3 \<Rightarrow> ivec3" where
  "rasterize E anisotropy roi_minpt v = isub (round3 (divide3 E v anisotropy)) roi_minpt"

text \<open>
  \<^verbatim>\<open>mapping = { tuple(v): i for i, v in enumerate(all_verts) }\<close>: a later vertex with
  the same coordinate overwrites the entry of an earlier one.
\<close>

fun build_mapping :: "nat \<Rightarrow> ivec3 list \<Rightarrow> (ivec3 \<rightharpoonup> nat) \<Rightarrow> (ivec3 \<rightharpoonup> nat)" where
  "build_mapping i [] m = m"
| "build_mapping i (v # vs) m = build_mapping (Suc i) vs (m(v \<mapsto> i))"

section \<open>Sampling the cross sections of one skeleton\<close>

text \<open>Reading and writing one element of a one-dimensional array, as numpy does.\<close>

definition py_index :: "'a list \<Rightarrow> int \<Rightarrow> 'a result" where
  "py_index xs i =
     (let k = (if i < 0 then i + int (length xs) else i)
      in if k < 0 \<or> int (length xs) \<le> k then Inl IndexError else Inr (xs ! nat k))"

definition py_setitem :: "'a list \<Rightarrow> nat \<Rightarrow> 'a \<Rightarrow> 'a list result" where
  "py_setitem xs i v = (if i < length xs then Inr (xs[i := v]) else Inl IndexError)"

text \<open>
  What the inner loops read and write: the two per-vertex arrays, and the record of the
  calls made to the sampling primitive (position and normal, in call order).
\<close>

record sampling =
  areas :: "real list"
  contacts :: "8 word list"
  calls :: "(ivec3 \<times> vec3) list"

text \<open>What stays fixed while one skeleton is sampled.\<close>

record sample_context =
  binimg :: mask
  anisotropy :: vec3
  repair_contacts :: bool
  mapping :: "ivec3 \<rightharpoonup> nat"

text \<open>\<^verbatim>\<open>np.any(vert < 0) or np.any(vert > shape)\<close>\<close>

fun outside :: "ivec3 \<Rightarrow> index3 \<Rightarrow> bool" where
  "outside (x, y, z) (sx, sy, sz) =
     ((x < 0 \<or> y < 0 \<or> z < 0) \<or> (int sx < x \<or> int sy < y \<or> int sz < z))"

text \<open>
  \<^verbatim>\<open>areas[idx] == 0 or (repair_contacts and contacts[idx] > 0)\<close>, with Python's
  short-circuit evaluation.
\<close>

definition needs_sample :: "sample_context \<Rightarrow> sampling \<Rightarrow> nat \<Rightarrow> bool result" where
  "needs_sample C st idx =
     bind (py_index (areas st) (int idx))
       (\<lambda>a. if a = 0 then Inr True
             else if repair_contacts C
               then bind (py_index (contacts st) (int idx)) (\<lambda>c. Inr (0 < c))
               else Inr False)"

text \<open>
  The body of \<^verbatim>\<open>for i, vert in enumerate(path)\<close>:
  \<^verbatim>\<open>
  if np.any(vert < 0) or np.any(vert > shape):
    continue
  idx = mapping[tuple(vert)]
  normal = normals[i]
  if areas[idx] == 0 or (repair_contacts and contacts[idx] > 0):
    areas[idx], contacts[idx] = xs3d.cross_sectional_area(
      binimg, vert, normal, anisotropy, return_contact=True)
  \<close>
\<close>

definition sample_vertex ::
  "ext \<Rightarrow> sample_context \<Rightarrow> vec3 list \<Rightarrow> nat \<Rightarrow> ivec3 \<Rightarrow> sampling \<Rightarrow> sampling result" where
  "sample_vertex E C normals i vert st =
     (if outside vert (mshape (binimg C)) then Inr st
      else case mapping C vert of
        None \<Rightarrow> Inl KeyError
      | Some idx \<Rightarrow>
          bind (py_index normals (int i))
            (\<lambda>normal.
               bind (needs_sample C st idx)
                 (\<lambda>go.
                    if go then
                      (case xs3d_cross_sectional_area E (binimg C) vert normal (anisotropy C) of
                         (area, contact) \<Rightarrow>
                           bind (py_setitem (areas st) idx area)
                             (\<lambda>areas'.
                                bind (py_setitem (contacts st) idx contact)
                                  (\<lambda>contacts'.
                                     Inr \<lparr> areas = areas', contacts = contacts',
                                           calls = calls st @ [(vert, normal)] \<rparr>)))
                    else Inr st)))"

fun sample_path ::
  "ext \<Rightarrow> sample_context \<Rightarrow> vec3 list \<Rightarrow> nat \<Rightarrow> ivec3 list \<Rightarrow> sampling \<Rightarrow> sampling result" where
  "sample_path E C normals i [] st = Inr st"
| "sample_path E C normals i (vert # rest) st =
     bind (sample_vertex E C normals i vert st) (sample_path E C normals (Suc i) rest)"

text \<open>\<^verbatim>\<open>normal /= np.linalg.norm(normal)\<close> on every row of \<open>normals\<close>.\<close>

definition normalize :: "vec3 \<Rightarrow> vec3" where
  "normalize v = vdiv v (linalg_norm v)"

text \<open>\<^verbatim>\<open>path[1:] - path[:-1]\<close> as float rows.\<close>

definition differences :: "ivec3 list \<Rightarrow> vec3 list" where
  "differences path = map to_float (map2 isub (tl path) (butlast path))"

text \<open>
  The body of \<^verbatim>\<open>for path in paths\<close>:
  \<^verbatim>\<open>
  path = (path / anisotropy).round().astype(int)
  path -= roi.minpt
  normals = (path[1:] - path[:-1]).astype(np.float32)
  normals = np.concatenate([ normals, [normals[-1]] ])
  normals = moving_average(normals, smoothing_window)
  for i in range(len(normals)):
    normal = normals[i,:]
    normal /= np.linalg.norm(normal)
  for i, vert in enumerate(path): ...
  \<close>
  \<^verbatim>\<open>normals[-1]\<close> raises IndexError when \<open>normals\<close> has no row.
\<close>

definition process_path ::
  "ext \<Rightarrow> sample_context \<Rightarrow> ivec3 \<Rightarrow> int \<Rightarrow> vec3 list \<Rightarrow> sampling \<Rightarrow> sampling result" where
  "process_path E C roi_minpt smoothing_window path0 st =
     (let path = map (rasterize E (anisotropy C) roi_minpt) path0;
          normals = differences path
      in bind (py_index normals (- 1))
           (\<lambda>last_normal.
              bind (moving_average (normals @ [last_normal]) smoothing_window)
                (\<lambda>smoothed. sample_path E C (map normalize smoothed) 0 path st)))"

fun process_paths ::
  "ext \<Rightarrow> sample_context \<Rightarrow> ivec3 \<Rightarrow> int \<Rightarrow> vec3 list list \<Rightarrow> sampling \<Rightarrow> sampling result" where
  "process_paths E C roi_minpt smoothing_window [] st = Inr st"
| "process_paths E C roi_minpt smoothing_window (path # paths) st =
     bind (process_path E C roi_minpt smoothing_window path st)
       (process_paths E C roi_minpt smoothing_window paths)"

section \<open>The orchestrator: \<^verbatim>\<open>cross_sectional_area\<close>\<close>

text \<open>
  The head of the loop body, up to the region of interest:
  \<^verbatim>\<open>
  if all_labels.dtype == bool:
    label = 1
  else:
    label = skel.id
  if label == 0:
    continue
  label = remapping[label]
  slices = all_slices[label - 1]
  if slices is None:
    continue
  roi = Bbox.from_slices(slices)
  if roi.volume() <= 1:
    continue
  roi.grow(1)
  roi.minpt = Vec.clamp(roi.minpt, Vec(0,0,0), roi.maxpt)
  \<close>
  \<open>Inr None\<close> is \<^verbatim>\<open>continue\<close>; \<open>Inr (Some (label, roi))\<close> goes on with the remapped
  label and the grown, clamped box.
\<close>

definition resolve_roi ::
  "ndarray \<Rightarrow> (int \<rightharpoonup> int) \<Rightarrow> slices option list \<Rightarrow> skeleton \<Rightarrow> (int \<times> bbox) option result" where
  "resolve_roi all_labels remapping all_slices skel =
     (let label = (if dtype_bool all_labels then 1 else skel_id skel)
      in if label = 0 then Inr None
         else case remapping label of
           None \<Rightarrow> Inl KeyError
         | Some label' \<Rightarrow>
             bind (py_index all_slices (label' - 1))
               (\<lambda>slcs. case slcs of
                  None \<Rightarrow> Inr None
                | Some s \<Rightarrow>
                    let roi = from_slices s
                    in if bbox_volume roi \<le> 1 then Inr None
                       else let grown = grow roi 1
                            in Inr (Some (label',
                                 grown\<lparr> minpt := vec_clamp (minpt grown) (0, 0, 0) (maxpt grown) \<rparr>))))"

text \<open>
  \<^verbatim>\<open>
  if repair_contacts:
    areas = skel.cross_sectional_area
    contacts = skel.cross_sectional_area_contacts
  else:
    areas = np.zeros([all_verts.shape[0]], dtype=np.float32)
    contacts = np.zeros([all_verts.shape[0]], dtype=np.uint8)
  \<close>
  Reading an attribute the object lacks raises AttributeError.
\<close>

definition initial_arrays :: "bool \<Rightarrow> skeleton \<Rightarrow> nat \<Rightarrow> (real list \<times> 8 word list) result" where
  "initial_arrays repair skel n =
     (if repair then
        (case cross_sectional_area_attr skel of
           None \<Rightarrow> Inl AttributeError
         | Some a \<Rightarrow>
             (case cross_sectional_area_contacts skel of
                None \<Rightarrow> Inl AttributeError
              | Some c \<Rightarrow> Inr (a, c)))
      else Inr (replicate n 0, replicate n 0))"

definition prop_entry :: attribute where
  "prop_entry = \<lparr> attr_id = ''cross_sectional_area'', data_type = ''float32'', num_components = 1 \<rparr>"

text \<open>
  \<^verbatim>\<open>
  needs_prop = True
  for skel_prop in skel.extra_attributes:
    if skel_prop["id"] == "cross_sectional_area":
      needs_prop = False
      break
  \<close>
\<close>

definition needs_prop :: "attribute list \<Rightarrow> bool" where
  "needs_prop attrs = (\<not> list_ex (\<lambda>skel_prop. attr_id skel_prop = ''cross_sectional_area'') attrs)"

text \<open>
  \<^verbatim>\<open>
  if needs_prop:
    skel.extra_attributes.append(prop)
  \<close>
\<close>

definition append_prop :: "attribute list \<Rightarrow> attribute list" where
  "append_prop attrs = (if needs_prop attrs then attrs @ [prop_entry] else attrs)"

text \<open>
  The rest of the loop body, for a skeleton that was not skipped.
  \<^verbatim>\<open>
  binimg = np.asfortranarray(all_labels[slices] == label)
  if fill_holes:
    binimg = fill_voids.fill(binimg, in_place=True)
  all_verts = (skel.vertices / anisotropy).round().astype(int)
  all_verts -= roi.minpt
  mapping = { tuple(v): i for i, v in enumerate(all_verts) }
  \<close>
  \<open>all_verts\<close> is the array of that name; \<open>skeleton_context\<close> collects the mask, the
  mapping and the two arguments that the path loop reads.
\<close>

definition all_verts :: "ext \<Rightarrow> vec3 \<Rightarrow> bbox \<Rightarrow> skeleton \<Rightarrow> ivec3 list" where
  "all_verts E anis roi skel = map (rasterize E anis (minpt roi)) (vertices skel)"

definition skeleton_context ::
  "ext \<Rightarrow> ndarray \<Rightarrow> vec3 \<Rightarrow> bool \<Rightarrow> bool \<Rightarrow> int \<Rightarrow> bbox \<Rightarrow> skeleton \<Rightarrow> sample_context" where
  "skeleton_context E all_labels anis fill_holes repair label roi skel =
     (let cropped = crop_equals all_labels (to_slices roi) label;
          img = (if fill_holes then fill_voids_fill E cropped else cropped)
      in \<lparr> binimg = img, anisotropy = anis, repair_contacts = repair,
            mapping = build_mapping 0 (all_verts E anis roi skel) Map.empty \<rparr>)"

text \<open>
  Then the arrays, the paths, the sampling, and the write-back onto the skeleton. The
  result is the annotated skeleton and the calls made to the sampling primitive.
\<close>

definition sample_skeleton ::
  "ext \<Rightarrow> ndarray \<Rightarrow> vec3 \<Rightarrow> int \<Rightarrow> bool \<Rightarrow> bool \<Rightarrow> int \<Rightarrow> bbox \<Rightarrow> skeleton
     \<Rightarrow> (skeleton \<times> (ivec3 \<times> vec3) list) result" where
  "sample_skeleton E all_labels anis smoothing_window fill_holes repair label roi skel =
     bind (initial_arrays repair skel (length (all_verts E anis roi skel)))
       (\<lambda>(areas0, contacts0).
          bind (process_paths E
                  (skeleton_context E all_labels anis fill_holes repair label roi skel)
                  (minpt roi) smoothing_window
                  (skel_paths E (vertices skel) (edges skel))
                  \<lparr> areas = areas0, contacts = contacts0, calls = [] \<rparr>)
            (\<lambda>st. Inr (skel\<lparr> extra_attributes := append_prop (extra_attributes skel),
                              cross_sectional_area_attr := Some (areas st),
                              cross_sectional_area_contacts := Some (contacts st) \<rparr>,
                          calls st)))"

definition annotate_skeleton ::
  "ext \<Rightarrow> ndarray \<Rightarrow> (int \<rightharpoonup> int) \<Rightarrow> slices option list \<Rightarrow> vec3 \<Rightarrow> int \<Rightarrow> bool \<Rightarrow> bool
     \<Rightarrow> skeleton \<Rightarrow> (skeleton \<times> (ivec3 \<times> vec3) list) result" where
  "annotate_skeleton E all_labels remapping all_slices anis smoothing_window fill_holes repair skel =
     bind (resolve_roi all_labels remapping all_slices skel)
       (\<lambda>r. case r of
          None \<Rightarrow> Inr (skel, [])
        | Some (label, roi) \<Rightarrow>
            sample_skeleton E all_labels anis smoothing_window fill_holes repair label roi skel)"

text \<open>\<^verbatim>\<open>for skel in iterator\<close>: the skeletons one after the other, the first error ends the call.\<close>

fun annotate_all ::
  "ext \<Rightarrow> ndarray \<Rightarrow> (int \<rightharpoonup> int) \<Rightarrow> slices option list \<Rightarrow> vec3 \<Rightarrow> int \<Rightarrow> bool \<Rightarrow> bool
     \<Rightarrow> skeleton list \<Rightarrow> (skeleton list \<times> (ivec3 \<times> vec3) list) result" where
  "annotate_all E all_labels remapping all_slices anis smoothing_window fill_holes repair [] =
     Inr ([], [])"
| "annotate_all E all_labels remapping all_slices anis smoothing_window fill_holes repair (skel # rest) =
     bind (annotate_skeleton E all_labels remapping all_slices anis smoothing_window
             fill_holes repair skel)
       (\<lambda>(skel', made).
          bind (annotate_all E all_labels remapping all_slices anis smoothing_window
                  fill_holes repair rest)
            (\<lambda>(rest', made'). Inr (skel' # rest', made @ made')))"

fun iterator :: "skeletons \<Rightarrow> skeleton list" where
  "iterator (SkelDict d) = map snd d"
| "iterator (SkelSingle skel) = [skel]"
| "iterator (SkelList l) = l"

text \<open>The container handed in, holding the skeletons as the loop left them.\<close>

fun returned :: "skeletons \<Rightarrow> skeleton list \<Rightarrow> skeletons" where
  "returned (SkelDict d) done = SkelDict (zip (map fst d) done)"
| "returned (SkelSingle skel) done = SkelSingle (hd done)"
| "returned (SkelList l) done = SkelList done"

text \<open>
  \<^verbatim>\<open>
  if all_labels.dtype == bool:
    remapping = { True: 1, False: 0, 1:1, 0:0 }
  else:
    all_labels, remapping = fastremap.renumber(all_labels, in_place=in_place)
  \<close>
  In Python \<^verbatim>\<open>True == 1\<close> and \<^verbatim>\<open>False == 0\<close> are the same keys. The result is the
  volume the function goes on with, the mapping, and the volume as the caller holds it
  after this statement.

  Modelled from the spec: \<^verbatim>\<open>in_place\<close> is the toggle "governing whether label
  renumbering mutates the caller's volume" (spec 6): with \<^verbatim>\<open>in_place=True\<close> the
  renumbering overwrites the caller's array with the renumbered labels, with
  \<^verbatim>\<open>in_place=False\<close> it works on a copy.
\<close>

definition normalize_labels :: "bool \<Rightarrow> ndarray \<Rightarrow> ndarray \<times> (int \<rightharpoonup> int) \<times> ndarray" where
  "normalize_labels in_place all_labels =
     (if dtype_bool all_labels then (all_labels, [1 \<mapsto> 1, 0 \<mapsto> 0], all_labels)
      else case renumber all_labels of
        (labels', remapping) \<Rightarrow>
          (labels', remapping, if in_place then labels' else all_labels))"

text \<open>
  \<^verbatim>\<open>
  def cross_sectional_area(all_labels, skeletons, anisotropy, smoothing_window,
                           progress, in_place, fill_holes, repair_contacts):
    ...
    all_slices = find_objects(all_labels)
    for skel in tqdm(iterator, ...): ...
    return skeletons
  \<close>
  The progress bar has no effect and is no parameter here. The value is a pair: what the
  call returns or raises (the container handed in, holding the skeletons as the loop
  left them, and the calls made to the sampling primitive), and the caller's volume as
  the call leaves it, whether it returns or raises.
\<close>

definition cross_sectional_area ::
  "ext \<Rightarrow> ndarray \<Rightarrow> skeletons \<Rightarrow> vec3 \<Rightarrow> int \<Rightarrow> bool \<Rightarrow> bool \<Rightarrow> bool
     \<Rightarrow> (skeletons \<times> (ivec3 \<times> vec3) list) result \<times> ndarray" where
  "cross_sectional_area E all_labels skels anis smoothing_window in_place fill_holes repair =
     (case normalize_labels in_place all_labels of
        (labels', remapping, callers_volume) \<Rightarrow>
          (bind (find_objects labels')
             (\<lambda>all_slices.
                bind (annotate_all E labels' remapping all_slices anis smoothing_window
                        fill_holes repair (iterator skels))
                  (\<lambda>(done, made). Inr (returned skels done, made))),
           callers_volume))"

section \<open>Concrete inputs\<close>

text \<open>
  A volume of two voxels along the first axis, both carrying the label 7 (C order,
  integer dtype), and a skeleton of that object: two vertices one voxel apart, joined
  by an edge, not annotated yet.
\<close>

definition two_voxels :: ndarray where
  "two_voxels =
     \<lparr> shape = (2, 1, 1), item = (\<lambda>i. 7), c_contiguous = True, f_contiguous = False,
       dtype_bool = False \<rparr>"

definition line_skeleton :: skeleton where
  "line_skeleton =
     \<lparr> skel_id = 7, vertices = [(0, 0, 0), (1, 0, 0)], edges = [(0, 1)],
       extra_attributes = [], cross_sectional_area_attr = None,
       cross_sectional_area_contacts = None \<rparr>"

text \<open>
  Collaborators for the concrete inputs: a sampling primitive that measures area 5
  without contact everywhere, no hole filling, a path decomposition that walks all
  vertices in their order as one path, and the exact division (the concrete inputs have
  coordinates that are integers or quarters and the spacing 1, which float32 divides
  exactly).
\<close>

definition sampler_five :: ext where
  "sampler_five =
     \<lparr> xs3d_cross_sectional_area = (\<lambda>img vert normal anis. (5, 0)),
       fill_voids_fill = (\<lambda>img. img),
       skel_paths = (\<lambda>vs es. [vs]),
       np_divide = (\<lambda>x y. x / y) \<rparr>"

text \<open>The same collaborators with a decomposition that returns no path.\<close>

definition no_paths :: ext where
  "no_paths = sampler_five\<lparr> skel_paths := (\<lambda>vs es. []) \<rparr>"

text \<open>The line skeleton as one normal-mode call with \<open>sampler_five\<close> leaves it.\<close>

definition line_skeleton_measured :: skeleton where
  "line_skeleton_measured =
     line_skeleton\<lparr> extra_attributes := [prop_entry],
                    cross_sectional_area_attr := Some [5, 5],
                    cross_sectional_area_contacts := Some [0, 0] \<rparr>"

text \<open>
  The line skeleton after an earlier pass that left its first vertex unmeasured (area 0,
  no contact) and measured area 3 without contact at the second.
\<close>

definition line_skeleton_partial :: skeleton where
  "line_skeleton_partial =
     line_skeleton\<lparr> extra_attributes := [prop_entry],
                    cross_sectional_area_attr := Some [0, 3],
                    cross_sectional_area_contacts := Some [0, 0] \<rparr>"

text \<open>A skeleton whose id 3 labels no voxel of \<open>two_voxels\<close>.\<close>

definition stray_skeleton :: skeleton where
  "stray_skeleton = line_skeleton\<lparr> skel_id := 3 \<rparr>"

text \<open>
  A skeleton whose second vertex lies two voxels along the first axis: its crop-local
  coordinate equals the crop's extent 2 on that axis.
\<close>

definition overshoot_skeleton :: skeleton where
  "overshoot_skeleton = line_skeleton\<lparr> vertices := [(0, 0, 0), (2, 0, 0)] \<rparr>"

text \<open>
  A skeleton that turns back: its third vertex \<open>(1/4, 0, 0)\<close> rasterizes to the voxel
  \<open>(0, 0, 0)\<close> of its first vertex.
\<close>

definition folded_skeleton :: skeleton where
  "folded_skeleton =
     line_skeleton\<lparr> vertices := [(0, 0, 0), (1, 0, 0), (1 / 4, 0, 0)],
                    edges := [(0, 1), (1, 2)] \<rparr>"


text \<open>
  A skeleton of the object 7 that is one vertex without edges; walking its vertices as
  one path gives a path of one vertex.
\<close>

definition point_skeleton :: skeleton where
  "point_skeleton = line_skeleton\<lparr> vertices := [(0, 0, 0)], edges := [] \<rparr>"

text \<open>A skeleton with the background id 0.\<close>

definition background_skeleton :: skeleton where
  "background_skeleton = line_skeleton\<lparr> skel_id := 0 \<rparr>"

text \<open>A skeleton of the object 7 without vertices, and so without paths.\<close>

definition empty_skeleton :: skeleton where
  "empty_skeleton = line_skeleton\<lparr> vertices := [], edges := [] \<rparr>"

text \<open>The collaborators with a sampling primitive that measures the area 0 everywhere.\<close>

definition sampler_zero :: ext where
  "sampler_zero = sampler_five\<lparr> xs3d_cross_sectional_area := (\<lambda>img vert normal anis. (0, 0)) \<rparr>"

section \<open>What the arrays hold after the loop\<close>



section \<open>Invariants of the vertex loop\<close>



section \<open>The rolling average\<close>

lemma moving_average_nonpositive: "n \<le> 0 \<Longrightarrow> moving_average a n = Inl ValueError"
  by (simp add: moving_average_def)

lemma py_int_half: "0 \<le> k \<Longrightarrow> py_int (real_of_int k / 2) = k div 2"
proof -
  assume "0 \<le> k"
  have "\<lfloor>real_of_int k / real_of_int 2\<rfloor> = k div 2"
    by (rule floor_divide_of_int_eq)
  with \<open>0 \<le> k\<close> show ?thesis by (simp add: py_int_def)
qed

lemma half_eq: "(real_of_int k / 2 = real_of_int m) = (k = 2 * m)"
proof -
  have "(real_of_int k / 2 = real_of_int m) = (real_of_int k = real_of_int (2 * m))"
    by auto
  also have "\<dots> = (k = 2 * m)" by (rule of_int_eq_iff)
  finally show ?thesis .
qed

lemma extra_eq:
  "(if real_of_int k / 2 \<noteq> real_of_int (k div 2) then 1 else 0) = (if even k then 0 else (1::int))"
proof -
  have "(k = 2 * (k div 2)) = even k"
    by (metis dvd_triv_left dvd_mult_div_cancel)
  then show ?thesis by (simp only: half_eq) auto
qed

text \<open>For a window of at least 2 the padding counts are \<open>(n - 1) div 2\<close>, plus one in front when \<open>n\<close> is even.\<close>

lemma moving_average_unfold:
  assumes "2 \<le> n"
  shows "moving_average a n =
     bind (concatenate_padded (nat ((n - 1) div 2 + (if even (n - 1) then 0 else 1))) a
             (nat ((n - 1) div 2)))
       (\<lambda>padded.
          Inr (map (\<lambda>v. vdiv v (real_of_int n))
                 (drop (nat (n - 1))
                    (take (nat n) (cumsum padded)
                     @ map2 vsub (drop (nat n) (cumsum padded))
                         (take (length (cumsum padded) - nat n) (cumsum padded))))))"
proof -
  have A: "int (length a) - (int (length a) - n + 1) = n - 1" by simp
  have B: "py_int (real_of_int (n - 1) / 2) = (n - 1) div 2"
    using assms by (intro py_int_half) simp
  have C: "\<not> n \<le> 0" "n \<noteq> 1" using assms by simp_all
  show ?thesis
    unfolding moving_average_def Let_def A B extra_eq
    using C by (simp only: if_False)
qed

lemma length_cumsum_from: "length (cumsum_from s xs) = length xs"
  by (induction xs arbitrary: s) auto

lemma length_cumsum: "length (cumsum xs) = length xs"
  by (simp add: cumsum_def length_cumsum_from)

text \<open>A window of 2 pads nothing behind the sequence, and the concatenation fails.\<close>

lemma moving_average_two: "a \<noteq> [] \<Longrightarrow> moving_average a 2 = Inl ValueError"
  by (cases a) (simp_all add: moving_average_def py_int_def concatenate_padded_def bind_def)

text \<open>Every other positive window keeps the length of a non-empty sequence.\<close>

lemma moving_average_length:
  assumes "a \<noteq> []" and "n = 1 \<or> 3 \<le> n"
  shows "\<exists>r. moving_average a n = Inr r \<and> length r = length a"
proof (cases "n = 1")
  case True
  then show ?thesis by (simp add: moving_average_def)
next
  case False
  with assms have n: "3 \<le> n" by simp
  define q where "q = (n - 1) div 2"
  define e :: int where "e = (if even (n - 1) then 0 else 1)"
  define m where "m = nat q"
  define k where "k = nat (q + e)"
  have d: "1 \<le> q" unfolding q_def using n by presburger
  have e0: "0 \<le> e" by (simp add: e_def)
  have s: "q + e + q = n - 1"
    unfolding q_def e_def by (cases "even (n - 1)") (simp_all only: if_True if_False, presburger+)
  have m1: "1 \<le> m" unfolding m_def using d by linarith
  have k1: "1 \<le> k" unfolding k_def using d e0 by linarith
  have sum: "k + m + 1 = nat n"
    unfolding k_def m_def using d e0 s by linarith
  obtain x xs where a: "a = x # xs" using assms(1) by (cases a) auto
  let ?p = "replicate k (hd a) @ a @ replicate m (last a)"
  have pad: "concatenate_padded k a m = Inr ?p"
    using m1 k1 by (simp add: concatenate_padded_def a)
  have lp: "length (cumsum ?p) = length a + nat n - 1"
    using sum by (simp add: length_cumsum)
  have la: "1 \<le> length a" by (simp add: a)
  have n1: "nat (n - 1) = nat n - 1" using n by simp
  have n3: "3 \<le> nat n" using n by simp
  have len: "length (drop (nat (n - 1))
               (take (nat n) (cumsum ?p)
                @ map2 vsub (drop (nat n) (cumsum ?p)) (take (length (cumsum ?p) - nat n) (cumsum ?p))))
        = length a"
    using la n3 by (simp add: lp n1)
  have n2: "2 \<le> n" using n by simp
  have eq: "moving_average a n =
      Inr (map (\<lambda>v. vdiv v (real_of_int n))
             (drop (nat (n - 1))
               (take (nat n) (cumsum ?p)
                @ map2 vsub (drop (nat n) (cumsum ?p)) (take (length (cumsum ?p) - nat n) (cumsum ?p)))))"
    by (simp only: moving_average_unfold [OF n2] q_def [symmetric] e_def [symmetric]
        m_def [symmetric] k_def [symmetric] pad bind_def sum.case)
  show ?thesis
    by (rule exI, rule conjI, rule eq) (simp only: length_map len)
qed

text \<open>
  Claim C8. The spec promises that the rolling average returns \<open>N\<close> vectors for every
  sequence of \<open>N \<ge> 1\<close> vectors and every window \<open>1 \<le> n \<le> N\<close>. For \<open>N = 2\<close> vectors and
  the window \<open>n = 2\<close> the code computes \<open>mirror = 0\<close> and \<open>extra = 1\<close>, hands
  \<^verbatim>\<open>np.concatenate\<close> the empty list as the block behind the sequence, and raises
  ValueError instead of returning two vectors.
\<close>

theorem moving_average_window_two_raises:
  "moving_average [(1, 0, 0), (0, 1, 0)] 2 = Inl ValueError"
  by (simp add: moving_average_def py_int_def concatenate_padded_def bind_def)

section \<open>The region locator\<close>

lemma set_indices: "set (indices s) = {(x, y, z). x < fst3 s \<and> y < snd3 s \<and> z < thd3 s}"
  by (cases s) (auto simp: image_iff)

lemma set_indices_rev3: "set (indices (rev3 s)) = rev3 ` set (indices s)"
proof -
  obtain sx sy sz where s: "s = (sx, sy, sz)" by (cases s) auto
  show ?thesis
    unfolding s by (auto simp: image_iff)
qed

lemma rev3_rev3 [simp]: "rev3 (rev3 i) = i"
  by (cases i) auto

lemma indices_rev3_empty: "indices (rev3 s) = [] \<longleftrightarrow> indices s = []"
  using set_indices_rev3 [of s] by (metis image_is_empty set_empty)

lemma amax_transpose_T: "amax (transpose_T A) = amax A"
proof -
  have "(\<lambda>i. item A (rev3 i)) ` rev3 ` set (indices (shape A)) = item A ` set (indices (shape A))"
    by (simp add: image_image)
  then show ?thesis
    by (simp add: amax_def transpose_T_def indices_rev3_empty set_indices_rev3)
qed

lemma set_voxels_of_transpose_T:
  "set (voxels_of (transpose_T A) L) = rev3 ` set (voxels_of A L)"
  by (auto simp: voxels_of_def transpose_T_def set_indices_rev3 image_iff)

lemma extent_cong: "set xs = set ys \<Longrightarrow> extent xs = extent ys"
  by (simp add: extent_def)

lemma fst3_rev3: "fst3 (rev3 i) = thd3 i" and snd3_rev3: "snd3 (rev3 i) = snd3 i"
  and thd3_rev3: "thd3 (rev3 i) = fst3 i"
  by (cases i; simp)+

lemma bounding_box_set:
  "bounding_box A L =
     (if set (voxels_of A L) = {} then None
      else Some (extent (map fst3 (voxels_of A L)), extent (map snd3 (voxels_of A L)),
                 extent (map thd3 (voxels_of A L))))"
  by (simp add: bounding_box_def split: list.splits)

text \<open>The box of a label in the transposed array is its box in the array, axes reversed.\<close>

lemma bounding_box_transpose_T:
  "bounding_box (transpose_T A) L = map_option rev3 (bounding_box A L)"
proof -
  let ?V = "voxels_of A L" and ?W = "voxels_of (transpose_T A) L"
  have W: "set ?W = rev3 ` set ?V" by (rule set_voxels_of_transpose_T)
  have a: "extent (map fst3 ?W) = extent (map thd3 ?V)"
    by (rule extent_cong) (simp add: W image_image fst3_rev3)
  have b: "extent (map snd3 ?W) = extent (map snd3 ?V)"
    by (rule extent_cong) (simp add: W image_image snd3_rev3)
  have c: "extent (map thd3 ?W) = extent (map fst3 ?V)"
    by (rule extent_cong) (simp add: W image_image thd3_rev3)
  show ?thesis
    unfolding bounding_box_set [of "transpose_T A"] bounding_box_set [of A] a b c
    by (simp add: W)
qed

lemma scipy_find_objects_transpose_T:
  "scipy_find_objects (transpose_T A) = map_sum id (map (map_option rev3)) (scipy_find_objects A)"
  by (simp add: scipy_find_objects_def amax_transpose_T bind_def bounding_box_transpose_T
      split: sum.splits)

lemma map_option_rev3_twice: "map_option rev3 (map_option rev3 x) = x"
  by (cases x) auto

lemma scipy_find_objects_flags:
  "scipy_find_objects (A\<lparr>c_contiguous := c, f_contiguous := f\<rparr>) = scipy_find_objects A"
proof -
  have "bounding_box (A\<lparr>c_contiguous := c, f_contiguous := f\<rparr>) = bounding_box A"
    by (rule ext) (simp add: bounding_box_def voxels_of_def)
  then show ?thesis
    by (simp add: scipy_find_objects_def amax_def)
qed

text \<open>On either path the locator returns what the primitive returns on the array itself.\<close>

lemma find_objects_eq_scipy: "find_objects A = scipy_find_objects A"
proof (cases "c_contiguous A")
  case True
  then show ?thesis by (simp add: find_objects_def)
next
  case False
  have "map (map_option rev3 \<circ> map_option rev3) xs = xs" for xs :: "slices option list"
    by (induction xs) (auto simp: map_option_rev3_twice)
  with False show ?thesis
    by (cases "scipy_find_objects A")
       (simp_all add: find_objects_def scipy_find_objects_transpose_T bind_def)
qed

text \<open>The transposed path on a volume in Fortran order, whose box is longer along the first axis.\<close>

lemma find_objects_fortran_order:
  "find_objects \<lparr> shape = (2, 1, 1), item = (\<lambda>i. 1), c_contiguous = False, f_contiguous = True,
                  dtype_bool = False \<rparr>
   = Inr [Some ((0, 2), (0, 1), (0, 1))]"
  by (simp add: find_objects_eq_scipy scipy_find_objects_def amax_def bind_def
      bounding_box_def voxels_of_def extent_def upt_conv_Cons)

text \<open>
  Claim C9. For every label volume, whatever its memory layout (the two contiguity
  flags decide between the direct and the transposed path), the region locator returns
  one entry for each label \<open>L\<close> from 1 to the maximum of the volume, in label order:
  \<open>None\<close> if no voxel carries \<open>L\<close>, and otherwise the box of the voxels that carry \<open>L\<close>,
  in the axis order of the volume itself: first the extent of their first coordinates,
  then of their second, then of their third. The right-hand side does not mention the
  layout: the transposition on the path that is not C-contiguous is invisible.
\<close>

theorem find_objects_original_axis_order:
  "find_objects (A\<lparr>c_contiguous := c, f_contiguous := f\<rparr>) =
     bind (amax A)
       (\<lambda>max_label.
          Inr (map (\<lambda>L. if voxels_of A L = [] then None
                         else Some (extent (map fst3 (voxels_of A L)),
                                    extent (map snd3 (voxels_of A L)),
                                    extent (map thd3 (voxels_of A L))))
                 [1..max_label]))"
proof -
  have b: "bounding_box A =
          (\<lambda>L. if voxels_of A L = [] then None
                else Some (extent (map fst3 (voxels_of A L)),
                           extent (map snd3 (voxels_of A L)),
                           extent (map thd3 (voxels_of A L))))"
    by (rule ext) (simp add: bounding_box_def split: list.splits)
  have "find_objects (A\<lparr>c_contiguous := c, f_contiguous := f\<rparr>) = scipy_find_objects A"
    by (simp add: find_objects_eq_scipy scipy_find_objects_flags)
  then show ?thesis
    by (simp only: scipy_find_objects_def b)
qed

section \<open>Results in sequence\<close>

lemma bind_Inr [simp]: "bind (Inr x) f = f x"
  by (simp add: bind_def)

lemma bind_Inl [simp]: "bind (Inl e) f = Inl e"
  by (simp add: bind_def)

lemma bind_Inr_iff: "bind r f = Inr y \<longleftrightarrow> (\<exists>x. r = Inr x \<and> f x = Inr y)"
  by (cases r) simp_all

lemma cross_sectional_area_unfold:
  "normalize_labels in_place A = (L, rm, A') \<Longrightarrow>
   cross_sectional_area E A skels anis n in_place fh rep =
     (bind (find_objects L)
        (\<lambda>sl. bind (annotate_all E L rm sl anis n fh rep (iterator skels))
                 (\<lambda>p. Inr (returned skels (fst p), snd p))),
      A')"
  by (simp add: cross_sectional_area_def split_def)

text \<open>An error in one skeleton, the skeletons before it processed, is the error of the call.\<close>

lemma annotate_all_append_error:
  "annotate_all E L rm sl anis n fh rep pre = Inr (pre', made) \<Longrightarrow>
   annotate_skeleton E L rm sl anis n fh rep s = Inl e \<Longrightarrow>
   annotate_all E L rm sl anis n fh rep (pre @ s # rest) = Inl e"
proof (induction pre arbitrary: pre' made)
  case Nil
  then show ?case by simp
next
  case (Cons a pre)
  show ?case
  proof (cases "annotate_skeleton E L rm sl anis n fh rep a")
    case (Inl e')
    with Cons.prems(1) show ?thesis by simp
  next
    case a: (Inr p)
    show ?thesis
    proof (cases "annotate_all E L rm sl anis n fh rep pre")
      case (Inl e')
      with a Cons.prems(1) show ?thesis by (simp add: split_def)
    next
      case (Inr q)
      have "annotate_all E L rm sl anis n fh rep pre = Inr (fst q, snd q)"
        using Inr by simp
      from Cons.IH [OF this Cons.prems(2)] a show ?thesis
        by (simp add: split_def)
    qed
  qed
qed

lemma call_error:
  assumes "normalize_labels in_place A = (L, rm, A')"
    and "find_objects L = Inr sl"
    and "iterator skels = pre @ s # rest"
    and "annotate_all E L rm sl anis n fh rep pre = Inr (pre', made)"
    and "annotate_skeleton E L rm sl anis n fh rep s = Inl e"
  shows "fst (cross_sectional_area E A skels anis n in_place fh rep) = Inl e"
proof -
  from annotate_all_append_error [OF assms(4) assms(5)]
  have "annotate_all E L rm sl anis n fh rep (iterator skels) = Inl e"
    unfolding assms(3) .
  then show ?thesis
    unfolding cross_sectional_area_unfold [OF assms(1)] assms(2) by simp
qed


lemma iterator_returned:
  "length done = length (iterator skels) \<Longrightarrow> done \<noteq> [] \<or> (\<forall>s. skels \<noteq> SkelSingle s)
   \<Longrightarrow> iterator (returned skels done) = done"
  by (cases skels) (auto simp: length_Suc_conv)

lemma returned_returned:
  "length done = length (iterator skels) \<Longrightarrow> returned (returned skels done) done' = returned skels done'"
  by (cases skels) simp_all

section \<open>The call on the two-voxel volume\<close>

lemma indices_two_voxels: "indices (2, Suc 0, Suc 0) = [(0, 0, 0), (1, 0, 0)]"
  by (simp add: upt_conv_Cons)

lemma renumber_two_voxels:
  "renumber two_voxels = (two_voxels\<lparr>item := \<lambda>i. 1\<rparr>, [0 \<mapsto> 0, 7 \<mapsto> 1])"
  by (simp add: renumber_def two_voxels_def indices_two_voxels del: indices.simps)

lemma normalize_labels_two_voxels:
  "normalize_labels in_place two_voxels =
     (two_voxels\<lparr>item := \<lambda>i. 1\<rparr>, [0 \<mapsto> 0, 7 \<mapsto> 1],
      if in_place then two_voxels\<lparr>item := \<lambda>i. 1\<rparr> else two_voxels)"
proof -
  have "dtype_bool two_voxels = False" by (simp add: two_voxels_def)
  then show ?thesis by (simp add: normalize_labels_def renumber_two_voxels)
qed

text \<open>The volume as a call with \<^verbatim>\<open>in_place=True\<close> leaves it: renumbering it changes nothing.\<close>

lemma renumber_two_voxels_again:
  "renumber (two_voxels\<lparr>item := \<lambda>i. 1\<rparr>) = (two_voxels\<lparr>item := \<lambda>i. 1\<rparr>, [0 \<mapsto> 0, 1 \<mapsto> 1])"
  by (simp add: renumber_def two_voxels_def indices_two_voxels del: indices.simps)

lemma normalize_labels_two_voxels_again:
  "normalize_labels in_place (two_voxels\<lparr>item := \<lambda>i. 1\<rparr>) =
     (two_voxels\<lparr>item := \<lambda>i. 1\<rparr>, [0 \<mapsto> 0, 1 \<mapsto> 1], two_voxels\<lparr>item := \<lambda>i. 1\<rparr>)"
proof -
  have "dtype_bool (two_voxels\<lparr>item := \<lambda>i. 1\<rparr>) = False" by (simp add: two_voxels_def)
  then show ?thesis by (simp add: normalize_labels_def renumber_two_voxels_again)
qed

lemma find_objects_two_voxels:
  "find_objects (two_voxels\<lparr>item := \<lambda>i. 1\<rparr>) = Inr [Some ((0, 2), (0, 1), (0, 1))]"
  by (simp add: find_objects_def scipy_find_objects_def amax_def two_voxels_def
      indices_two_voxels bounding_box_def voxels_of_def extent_def del: indices.simps)

lemma resolve_roi_two_voxels:
  "skel_id skel = 7 \<Longrightarrow>
   resolve_roi (two_voxels\<lparr>item := \<lambda>i. 1\<rparr>) [0 \<mapsto> 0, 7 \<mapsto> 1]
     [Some ((0, 2), (0, 1), (0, 1))] skel
   = Inr (Some (1, \<lparr>minpt = (0, 0, 0), maxpt = (3, 2, 2)\<rparr>))"
  by (simp add: resolve_roi_def two_voxels_def py_index_def bbox_volume_def grow_def)

lemma crop_two_voxels:
  "mshape (crop_equals (two_voxels\<lparr>item := \<lambda>i. 1\<rparr>)
            ((0, 3), (0, 2), (0, 2)) 1) = (2, 1, 1)"
  by (simp add: crop_equals_def two_voxels_def slice_range_def slice_norm_def)

text \<open>
  A single skeleton of the object 7 reaches sampling with the dense label 1 and the
  grown, clamped box from \<open>(0, 0, 0)\<close> to \<open>(3, 2, 2)\<close>.
\<close>

lemma two_voxels_single:
  assumes "skel_id skel = 7"
  shows "cross_sectional_area E two_voxels (SkelSingle skel) anis n in_place fh rep =
     (bind (sample_skeleton E (two_voxels\<lparr>item := \<lambda>i. 1\<rparr>) anis n fh rep 1
              \<lparr>minpt = (0, 0, 0), maxpt = (3, 2, 2)\<rparr> skel)
        (\<lambda>p. Inr (SkelSingle (fst p), snd p)),
      if in_place then two_voxels\<lparr>item := \<lambda>i. 1\<rparr> else two_voxels)"
proof (cases "sample_skeleton E (two_voxels\<lparr>item := \<lambda>i. 1\<rparr>) anis n fh rep 1
             \<lparr>minpt = (0, 0, 0), maxpt = (3, 2, 2)\<rparr> skel")
  case (Inl e)
  then show ?thesis
    unfolding cross_sectional_area_unfold [OF normalize_labels_two_voxels] find_objects_two_voxels
    by (simp add: annotate_skeleton_def resolve_roi_two_voxels [OF assms])
next
  case (Inr p)
  then show ?thesis
    unfolding cross_sectional_area_unfold [OF normalize_labels_two_voxels] find_objects_two_voxels
    by (simp add: annotate_skeleton_def resolve_roi_two_voxels [OF assms] split_def)
qed

lemmas sampling_defs = sample_skeleton_def all_verts_def skeleton_context_def
  initial_arrays_def process_path_def
  differences_def rasterize_def np_round_def py_index_def py_setitem_def
  moving_average_def normalize_def sample_vertex_def needs_sample_def needs_prop_def
  append_prop_def prop_entry_def Let_def

lemma sample_line_skeleton:
  "sample_skeleton sampler_five (two_voxels\<lparr>item := \<lambda>i. 1\<rparr>) (1, 1, 1) 1 False False 1
     \<lparr>minpt = (0, 0, 0), maxpt = (3, 2, 2)\<rparr> line_skeleton
   = Inr (line_skeleton_measured, [((0, 0, 0), (1, 0, 0)), ((1, 0, 0), (1, 0, 0))])"
  by (simp add: sampling_defs crop_two_voxels sampler_five_def line_skeleton_def
      line_skeleton_measured_def)

lemma sample_line_skeleton_measured:
  "sample_skeleton sampler_five (two_voxels\<lparr>item := \<lambda>i. 1\<rparr>) (1, 1, 1) 1 False False 1
     \<lparr>minpt = (0, 0, 0), maxpt = (3, 2, 2)\<rparr> line_skeleton_measured
   = Inr (line_skeleton_measured, [((0, 0, 0), (1, 0, 0)), ((1, 0, 0), (1, 0, 0))])"
  by (simp add: sampling_defs crop_two_voxels sampler_five_def line_skeleton_def
      line_skeleton_measured_def)

lemma sample_line_skeleton_partial:
  "sample_skeleton sampler_five (two_voxels\<lparr>item := \<lambda>i. 1\<rparr>) (1, 1, 1) 1 False True 1
     \<lparr>minpt = (0, 0, 0), maxpt = (3, 2, 2)\<rparr> line_skeleton_partial
   = Inr (line_skeleton_partial\<lparr>cross_sectional_area_attr := Some [5, 3]\<rparr>,
          [((0, 0, 0), (1, 0, 0))])"
  by (simp add: sampling_defs crop_two_voxels sampler_five_def line_skeleton_def
      line_skeleton_partial_def)

lemma sample_overshoot_skeleton:
  "sample_skeleton sampler_five (two_voxels\<lparr>item := \<lambda>i. 1\<rparr>) (1, 1, 1) 1 False False 1
     \<lparr>minpt = (0, 0, 0), maxpt = (3, 2, 2)\<rparr> overshoot_skeleton
   = Inr (overshoot_skeleton\<lparr>extra_attributes := [prop_entry],
                             cross_sectional_area_attr := Some [5, 5],
                             cross_sectional_area_contacts := Some [0, 0]\<rparr>,
          [((0, 0, 0), (1, 0, 0)), ((2, 0, 0), (1, 0, 0))])"
  by (simp add: sampling_defs crop_two_voxels sampler_five_def line_skeleton_def
      overshoot_skeleton_def)


lemma sample_empty_skeleton:
  "sample_skeleton no_paths (two_voxels\<lparr>item := \<lambda>i. 1\<rparr>) (1, 1, 1) 0 False False 1
     \<lparr>minpt = (0, 0, 0), maxpt = (3, 2, 2)\<rparr> empty_skeleton
   = Inr (empty_skeleton\<lparr>extra_attributes := [prop_entry],
                        cross_sectional_area_attr := Some [],
                        cross_sectional_area_contacts := Some []\<rparr>, [])"
  by (simp add: sampling_defs crop_two_voxels sampler_five_def no_paths_def line_skeleton_def
      empty_skeleton_def)

lemma skel_id_fixtures:
  "skel_id line_skeleton = 7" "skel_id line_skeleton_measured = 7"
  "skel_id line_skeleton_partial = 7" "skel_id overshoot_skeleton = 7"
  "skel_id folded_skeleton = 7" "skel_id point_skeleton = 7" "skel_id empty_skeleton = 7"
  by (simp_all add: line_skeleton_def line_skeleton_measured_def line_skeleton_partial_def
      overshoot_skeleton_def folded_skeleton_def point_skeleton_def empty_skeleton_def)

section \<open>Repair mode and unflagged vertices\<close>

text \<open>
  Claim C1. The spec says that repair mode recomputes a vertex only if its stored
  contacts value was non-zero before the call, and leaves every vertex whose contacts
  value was zero unchanged. The condition of the code is
  \<^verbatim>\<open>areas[idx] == 0 or (repair_contacts and contacts[idx] > 0)\<close>: a vertex whose stored
  area is 0 is measured in repair mode too, whatever its contacts value. On
  \<open>line_skeleton_partial\<close> (areas \<open>[0, 3]\<close>, contacts \<open>[0, 0]\<close>) the repair call samples
  the first vertex, whose contacts value was 0, and overwrites its area with 5
  (whatever \<^verbatim>\<open>in_place\<close> is).
\<close>

theorem repair_recomputes_unflagged_vertex:
  "fst (cross_sectional_area sampler_five two_voxels (SkelSingle line_skeleton_partial)
          (1, 1, 1) 1 in_place False True)
   = Inr (SkelSingle (line_skeleton_partial\<lparr>cross_sectional_area_attr := Some [5, 3]\<rparr>),
          [((0, 0, 0), (1, 0, 0))])"
  by (simp add: two_voxels_single skel_id_fixtures sample_line_skeleton_partial)

section \<open>A skeleton whose label is absent from the volume\<close>

text \<open>
  Claim C4. The spec says that a skeleton whose label has no voxel in the non-boolean
  volume is skipped without error and returned unchanged. The code looks the label up
  in the mapping returned by the renumbering, \<^verbatim>\<open>label = remapping[label]\<close>, before
  the test \<^verbatim>\<open>if slices is None: continue\<close>; the mapping holds only the ids present in
  the volume, so the lookup raises KeyError. On \<open>two_voxels\<close>, whose only label is 7,
  the call with the skeleton of id 3 ends with KeyError (whatever \<^verbatim>\<open>in_place\<close> is).
\<close>

theorem absent_label_raises_KeyError:
  "fst (cross_sectional_area sampler_five two_voxels (SkelSingle stray_skeleton)
          (1, 1, 1) 1 in_place False False)
   = Inl KeyError"
  unfolding cross_sectional_area_unfold [OF normalize_labels_two_voxels] find_objects_two_voxels
  by (simp add: annotate_skeleton_def resolve_roi_def two_voxels_def stray_skeleton_def
      line_skeleton_def)

section \<open>The bounds test of the vertex loop\<close>

text \<open>
  Claim C6. The spec says that a path vertex is skipped exactly when its crop-local
  coordinate is outside \<open>[0, crop_shape)\<close> on some axis, in particular when it equals
  \<open>crop_shape\<close>. The code tests \<^verbatim>\<open>np.any(vert < 0) or np.any(vert > shape)\<close>, which
  lets a coordinate equal to the extent through. The crop of \<open>two_voxels\<close> has shape
  \<open>(2, 1, 1)\<close>; the second vertex of \<open>overshoot_skeleton\<close> has the crop-local coordinate
  \<open>(2, 0, 0)\<close>, is not skipped, and is handed to the sampling primitive (whatever
  \<^verbatim>\<open>in_place\<close> is).
\<close>

theorem vertex_at_crop_extent_is_sampled:
  "outside (2, 0, 0) (2, 1, 1) = False \<and>
   fst (cross_sectional_area sampler_five two_voxels (SkelSingle overshoot_skeleton)
          (1, 1, 1) 1 in_place False False)
   = Inr (SkelSingle (overshoot_skeleton\<lparr>extra_attributes := [prop_entry],
                             cross_sectional_area_attr := Some [5, 5],
                             cross_sectional_area_contacts := Some [0, 0]\<rparr>),
          [((0, 0, 0), (1, 0, 0)), ((2, 0, 0), (1, 0, 0))])"
  by (simp add: two_voxels_single skel_id_fixtures sample_overshoot_skeleton)

section \<open>Errors of the path loop\<close>

lemma length_all_verts: "length (all_verts E anis roi s) = length (vertices s)"
  by (simp add: all_verts_def)

lemma anisotropy_skeleton_context:
  "anisotropy (skeleton_context E A anis fh rep label roi s) = anis"
  by (simp add: skeleton_context_def Let_def)



text \<open>An error of the path loop is the error of the work on the skeleton.\<close>

lemma annotate_skeleton_path_error:
  assumes "resolve_roi L rm sl s = Inr (Some (label, roi))"
    and "initial_arrays rep s (length (vertices s)) = Inr (a0, c0)"
    and "process_paths E (skeleton_context E L anis fh rep label roi s) (minpt roi) n
           (skel_paths E (vertices s) (edges s))
           \<lparr>areas = a0, contacts = c0, calls = []\<rparr> = Inl e"
  shows "annotate_skeleton E L rm sl anis n fh rep s = Inl e"
  by (simp add: annotate_skeleton_def assms(1) sample_skeleton_def length_all_verts
      assms(2) assms(3))

lemma process_paths_append:
  "process_paths E C roi_minpt n before st = Inr st' \<Longrightarrow>
   process_paths E C roi_minpt n (before @ rest) st = process_paths E C roi_minpt n rest st'"
proof (induction before arbitrary: st)
  case Nil
  then show ?case by simp
next
  case (Cons p before)
  show ?case
  proof (cases "process_path E C roi_minpt n p st")
    case (Inl e)
    with Cons.prems show ?thesis by simp
  next
    case (Inr st1)
    with Cons.prems have "process_paths E C roi_minpt n before st1 = Inr st'" by simp
    from Cons.IH [OF this] Inr show ?thesis by simp
  qed
qed

section \<open>Paths with fewer than two vertices\<close>

lemma differences_Nil: "length path < 2 \<Longrightarrow> differences path = []"
  by (cases path) (auto simp: differences_def)

lemma differences_nonempty: "2 \<le> length path \<Longrightarrow> differences path \<noteq> []"
  by (cases path; cases "tl path") (auto simp: differences_def)

lemma process_path_short:
  "length path < 2 \<Longrightarrow> process_path E C roi_minpt n path st = Inl IndexError"
  by (simp add: process_path_def Let_def differences_Nil py_index_def)

text \<open>
  Claim C5, as the code has it. The spec says that a decomposed path with fewer than 2
  vertices is skipped silently. In the code such a path does yield no direction vectors,
  but nothing skips it: \<^verbatim>\<open>normals[-1]\<close> reads the last row of an array without rows
  and raises IndexError. So the call ends with IndexError whenever it reaches such a
  path: the skeletons before its skeleton were processed, the skeleton reaches sampling
  (its label resolves to a region of more than one voxel and its arrays are there), and
  the paths before it were processed.
\<close>

theorem short_path_raises_IndexError:
  assumes "normalize_labels in_place A = (L, rm, A')"
    and "find_objects L = Inr sl"
    and "iterator skels = pre @ s # rest"
    and "annotate_all E L rm sl anis n fh rep pre = Inr (pre', made)"
    and "resolve_roi L rm sl s = Inr (Some (label, roi))"
    and "initial_arrays rep s (length (vertices s)) = Inr (a0, c0)"
    and "skel_paths E (vertices s) (edges s) = before @ path # after"
    and "process_paths E (skeleton_context E L anis fh rep label roi s) (minpt roi) n before
           \<lparr>areas = a0, contacts = c0, calls = []\<rparr> = Inr st"
    and "length path < 2"
  shows "differences (map (rasterize E anis (minpt roi)) path) = [] \<and>
         fst (cross_sectional_area E A skels anis n in_place fh rep) = Inl IndexError"
proof -
  have "process_paths E (skeleton_context E L anis fh rep label roi s) (minpt roi) n
           (skel_paths E (vertices s) (edges s))
           \<lparr>areas = a0, contacts = c0, calls = []\<rparr> = Inl IndexError"
    unfolding assms(7) process_paths_append [OF assms(8)]
    by (simp add: process_path_short [OF assms(9)])
  from call_error [OF assms(1-4) annotate_skeleton_path_error [OF assms(5) assms(6) this]]
  show ?thesis
    by (simp add: differences_Nil assms(9))
qed

text \<open>The call on the skeleton of one vertex, whose only path has one vertex.\<close>

theorem short_path_raises_IndexError_witness:
  "skel_paths sampler_five (vertices point_skeleton) (edges point_skeleton) = [[(0, 0, 0)]] \<and>
   differences (map (rasterize sampler_five (1, 1, 1) (0, 0, 0)) [(0, 0, 0)]) = [] \<and>
   fst (cross_sectional_area sampler_five two_voxels (SkelSingle point_skeleton)
          (1, 1, 1) 1 False False False) = Inl IndexError"
proof -
  have a: "iterator (SkelSingle point_skeleton) = [] @ point_skeleton # []" by simp
  have b: "annotate_all sampler_five (two_voxels\<lparr>item := \<lambda>i. 1\<rparr>) [0 \<mapsto> 0, 7 \<mapsto> 1]
             [Some ((0, 2), (0, 1), (0, 1))] (1, 1, 1) 1 False False [] = Inr ([], [])" by simp
  have c: "resolve_roi (two_voxels\<lparr>item := \<lambda>i. 1\<rparr>) [0 \<mapsto> 0, 7 \<mapsto> 1]
             [Some ((0, 2), (0, 1), (0, 1))] point_skeleton
           = Inr (Some (1, \<lparr>minpt = (0, 0, 0), maxpt = (3, 2, 2)\<rparr>))"
    by (simp add: resolve_roi_two_voxels skel_id_fixtures)
  have d: "initial_arrays False point_skeleton (length (vertices point_skeleton))
           = Inr ([0], [0])"
    by (simp add: initial_arrays_def point_skeleton_def line_skeleton_def)
  have e: "skel_paths sampler_five (vertices point_skeleton) (edges point_skeleton)
           = [] @ [(0, 0, 0)] # []"
    by (simp add: sampler_five_def point_skeleton_def line_skeleton_def)
  have f: "process_paths sampler_five
             (skeleton_context sampler_five (two_voxels\<lparr>item := \<lambda>i. 1\<rparr>) (1, 1, 1) False False 1
                \<lparr>minpt = (0, 0, 0), maxpt = (3, 2, 2)\<rparr> point_skeleton)
             (minpt \<lparr>minpt = (0, 0, 0), maxpt = (3, 2, 2)\<rparr>) 1 []
             \<lparr>areas = [0], contacts = [0], calls = []\<rparr>
           = Inr \<lparr>areas = [0], contacts = [0], calls = []\<rparr>" by simp
  have g: "length [(0, 0, 0) :: vec3] < 2" by simp
  from short_path_raises_IndexError
         [OF normalize_labels_two_voxels find_objects_two_voxels a b c d e f g] e
  show ?thesis by simp
qed

text \<open>
  The claim of the spec fails on the skeleton of one vertex, walked as one path of one
  vertex: the call does not skip the path, it ends with IndexError.
\<close>

theorem single_vertex_path_raises:
  "fst (cross_sectional_area sampler_five two_voxels (SkelSingle point_skeleton)
          (1, 1, 1) 1 False False False) = Inl IndexError"
proof -
  have "sample_skeleton sampler_five (two_voxels\<lparr>item := \<lambda>i. 1\<rparr>) (1, 1, 1) 1 False False 1
     \<lparr>minpt = (0, 0, 0), maxpt = (3, 2, 2)\<rparr> point_skeleton = Inl IndexError"
    by (simp add: sampling_defs crop_two_voxels sampler_five_def point_skeleton_def
        line_skeleton_def)
  then show ?thesis
    by (simp add: two_voxels_single skel_id_fixtures)
qed

section \<open>A non-positive smoothing window\<close>

lemma py_index_last: "xs \<noteq> [] \<Longrightarrow> py_index xs (- 1) = Inr (last xs)"
proof -
  assume ne: "xs \<noteq> []"
  then have "nat (int (length xs) - 1) = length xs - 1" by simp
  with ne show ?thesis
    by (simp add: py_index_def Let_def last_conv_nth)
qed

lemma process_path_nonpositive:
  "n \<le> 0 \<Longrightarrow> 2 \<le> length path \<Longrightarrow> process_path E C roi_minpt n path st = Inl ValueError"
proof -
  assume n: "n \<le> 0" and l: "2 \<le> length path"
  let ?d = "differences (map (rasterize E (anisotropy C) roi_minpt) path)"
  have "?d \<noteq> []" using l by (simp add: differences_nonempty)
  then have "py_index ?d (- 1) = Inr (last ?d)" by (rule py_index_last)
  then show ?thesis
    using n by (simp add: process_path_def Let_def moving_average_nonpositive)
qed

text \<open>
  Claim C7, as the code has it. The spec says that a non-positive smoothing window is
  reported immediately, whatever the volume and the skeletons are. The code does not
  look at the window on entry; it checks it only inside \<^verbatim>\<open>moving_average\<close>, which
  raises ValueError for every window \<open>n \<le> 0\<close> and every sequence, and which is called
  once per path. So the call ends with ValueError when it reaches the first path of a
  skeleton and that path has at least 2 vertices: the skeletons before that skeleton
  were processed, and the skeleton reaches sampling (its label resolves to a region of
  more than one voxel and its arrays are there). (A first path of fewer than 2 vertices
  raises IndexError before the smoother is called.)
\<close>

theorem nonpositive_window_raises_at_first_path:
  assumes "n \<le> 0"
    and "normalize_labels in_place A = (L, rm, A')"
    and "find_objects L = Inr sl"
    and "iterator skels = pre @ s # rest"
    and "annotate_all E L rm sl anis n fh rep pre = Inr (pre', made)"
    and "resolve_roi L rm sl s = Inr (Some (label, roi))"
    and "initial_arrays rep s (length (vertices s)) = Inr (a0, c0)"
    and "skel_paths E (vertices s) (edges s) = path # after"
    and "2 \<le> length path"
  shows "moving_average a n = Inl ValueError \<and>
         fst (cross_sectional_area E A skels anis n in_place fh rep) = Inl ValueError"
proof -
  have "process_paths E (skeleton_context E L anis fh rep label roi s) (minpt roi) n
           (skel_paths E (vertices s) (edges s))
           \<lparr>areas = a0, contacts = c0, calls = []\<rparr> = Inl ValueError"
    unfolding assms(8)
    by (simp add: process_path_nonpositive [OF assms(1) assms(9)])
  from call_error [OF assms(2-5) annotate_skeleton_path_error [OF assms(6) assms(7) this]]
  show ?thesis
    by (simp add: moving_average_nonpositive [OF assms(1)])
qed

text \<open>The call with the window 0 on the line skeleton, whose path has two vertices.\<close>

theorem nonpositive_window_raises_at_first_path_witness:
  "skel_paths sampler_five (vertices line_skeleton) (edges line_skeleton)
     = [[(0, 0, 0), (1, 0, 0)]] \<and>
   moving_average [(1, 0, 0), (1, 0, 0)] 0 = Inl ValueError \<and>
   fst (cross_sectional_area sampler_five two_voxels (SkelSingle line_skeleton)
          (1, 1, 1) 0 False False False) = Inl ValueError"
proof -
  have z: "(0 :: int) \<le> 0" by simp
  have a: "iterator (SkelSingle line_skeleton) = [] @ line_skeleton # []" by simp
  have b: "annotate_all sampler_five (two_voxels\<lparr>item := \<lambda>i. 1\<rparr>) [0 \<mapsto> 0, 7 \<mapsto> 1]
             [Some ((0, 2), (0, 1), (0, 1))] (1, 1, 1) 0 False False [] = Inr ([], [])" by simp
  have c: "resolve_roi (two_voxels\<lparr>item := \<lambda>i. 1\<rparr>) [0 \<mapsto> 0, 7 \<mapsto> 1]
             [Some ((0, 2), (0, 1), (0, 1))] line_skeleton
           = Inr (Some (1, \<lparr>minpt = (0, 0, 0), maxpt = (3, 2, 2)\<rparr>))"
    by (simp add: resolve_roi_two_voxels skel_id_fixtures)
  have d: "initial_arrays False line_skeleton (length (vertices line_skeleton))
           = Inr ([0, 0], [0, 0])"
    by (simp add: initial_arrays_def line_skeleton_def numeral_2_eq_2)
  have e: "skel_paths sampler_five (vertices line_skeleton) (edges line_skeleton)
           = [(0, 0, 0), (1, 0, 0)] # []"
    by (simp add: sampler_five_def line_skeleton_def)
  have g: "2 \<le> length [(0, 0, 0) :: vec3, (1, 0, 0)]" by simp
  from nonpositive_window_raises_at_first_path
         [OF z normalize_labels_two_voxels find_objects_two_voxels a b c d e g,
          of "[(1, 0, 0), (1, 0, 0)]" False] e
  show ?thesis by simp
qed

text \<open>
  The claim of the spec fails where no path is smoothed. With the window 0 a skeleton
  with the background id is skipped and the call returns it unchanged; a skeleton of the
  object 7 without vertices has no path, and the call returns it annotated with the
  attribute descriptor and empty arrays.
\<close>

theorem nonpositive_window_returns:
  "fst (cross_sectional_area sampler_five two_voxels (SkelSingle background_skeleton)
          (1, 1, 1) 0 False False False) = Inr (SkelSingle background_skeleton, []) \<and>
   fst (cross_sectional_area no_paths two_voxels (SkelSingle empty_skeleton)
          (1, 1, 1) 0 False False False)
   = Inr (SkelSingle (empty_skeleton\<lparr>extra_attributes := [prop_entry],
                        cross_sectional_area_attr := Some [],
                        cross_sectional_area_contacts := Some []\<rparr>), [])"
proof
  show "fst (cross_sectional_area sampler_five two_voxels (SkelSingle background_skeleton)
          (1, 1, 1) 0 False False False) = Inr (SkelSingle background_skeleton, [])"
    unfolding cross_sectional_area_unfold [OF normalize_labels_two_voxels] find_objects_two_voxels
    by (simp add: annotate_skeleton_def resolve_roi_def two_voxels_def background_skeleton_def
        line_skeleton_def)
  show "fst (cross_sectional_area no_paths two_voxels (SkelSingle empty_skeleton)
          (1, 1, 1) 0 False False False)
   = Inr (SkelSingle (empty_skeleton\<lparr>extra_attributes := [prop_entry],
                        cross_sectional_area_attr := Some [],
                        cross_sectional_area_contacts := Some []\<rparr>), [])"
    by (simp add: two_voxels_single skel_id_fixtures sample_empty_skeleton)
qed

section \<open>Repair mode on a skeleton that was never annotated\<close>

lemma initial_arrays_repair:
  "initial_arrays True s k = Inr (a, c) \<longleftrightarrow>
     cross_sectional_area_attr s = Some a \<and> cross_sectional_area_contacts s = Some c"
  by (simp add: initial_arrays_def split: option.splits)

lemma initial_arrays_missing:
  "cross_sectional_area_attr s = None \<or> cross_sectional_area_contacts s = None \<Longrightarrow>
   initial_arrays True s k = Inl AttributeError"
  by (auto simp: initial_arrays_def split: option.splits)

lemma sample_skeleton_missing:
  "cross_sectional_area_attr s = None \<or> cross_sectional_area_contacts s = None \<Longrightarrow>
   sample_skeleton E A anis n fh True label roi s = Inl AttributeError"
  by (simp add: sample_skeleton_def initial_arrays_missing)

text \<open>
  Claim C10. In repair mode the two per-vertex arrays are the skeleton's stored
  \<^verbatim>\<open>cross_sectional_area\<close> and \<^verbatim>\<open>cross_sectional_area_contacts\<close>, never fresh arrays;
  so for a skeleton that reaches sampling (the skeletons before it processed, its label
  resolved to a region of more than one voxel) and lacks one of the two attributes, the
  call ends with AttributeError (whatever \<^verbatim>\<open>in_place\<close> is).
\<close>

theorem repair_without_arrays_raises:
  assumes "normalize_labels in_place A = (L, rm, A')"
    and "find_objects L = Inr sl"
    and "iterator skels = pre @ s # rest"
    and "annotate_all E L rm sl anis n fh True pre = Inr (pre', made)"
    and "resolve_roi L rm sl s = Inr (Some (label, roi))"
    and "cross_sectional_area_attr s = None \<or> cross_sectional_area_contacts s = None"
  shows "fst (cross_sectional_area E A skels anis n in_place fh True) = Inl AttributeError \<and>
         (\<forall>t k a c. initial_arrays True t k = Inr (a, c) \<longrightarrow>
            cross_sectional_area_attr t = Some a \<and> cross_sectional_area_contacts t = Some c)"
proof -
  have "annotate_skeleton E L rm sl anis n fh True s = Inl AttributeError"
    by (simp add: annotate_skeleton_def assms(5) sample_skeleton_missing [OF assms(6)])
  from call_error [OF assms(1-4) this]
  show ?thesis by (simp add: initial_arrays_repair)
qed

text \<open>The repair call on the line skeleton, which was never annotated.\<close>

theorem repair_without_arrays_raises_witness:
  "cross_sectional_area_attr line_skeleton = None \<and>
   fst (cross_sectional_area sampler_five two_voxels (SkelSingle line_skeleton)
          (1, 1, 1) 1 False False True)
     = Inl AttributeError"
proof -
  have a: "iterator (SkelSingle line_skeleton) = [] @ line_skeleton # []" by simp
  have b: "annotate_all sampler_five (two_voxels\<lparr>item := \<lambda>i. 1\<rparr>) [0 \<mapsto> 0, 7 \<mapsto> 1]
             [Some ((0, 2), (0, 1), (0, 1))] (1, 1, 1) 1 False True [] = Inr ([], [])" by simp
  have c: "resolve_roi (two_voxels\<lparr>item := \<lambda>i. 1\<rparr>) [0 \<mapsto> 0, 7 \<mapsto> 1]
             [Some ((0, 2), (0, 1), (0, 1))] line_skeleton
           = Inr (Some (1, \<lparr>minpt = (0, 0, 0), maxpt = (3, 2, 2)\<rparr>))"
    by (simp add: resolve_roi_two_voxels skel_id_fixtures)
  have d: "cross_sectional_area_attr line_skeleton = None" by (simp add: line_skeleton_def)
  then have e: "cross_sectional_area_attr line_skeleton = None
                \<or> cross_sectional_area_contacts line_skeleton = None" by simp
  from repair_without_arrays_raises
         [OF normalize_labels_two_voxels find_objects_two_voxels a b c e, of False] d
  show ?thesis by simp
qed

section \<open>Two normal-mode calls in a row\<close>

lemma needs_prop_append_prop: "\<not> needs_prop (append_prop attrs)"
  by (simp add: append_prop_def needs_prop_def prop_entry_def)

lemma append_prop_idem: "append_prop (append_prop attrs) = append_prop attrs"
  using needs_prop_append_prop [of attrs] by (simp add: append_prop_def [of "append_prop attrs"])

text \<open>
  In normal mode the work on one skeleton reads its vertices and edges only; the stored
  arrays are replaced by the ones the path loop fills, starting from zeros.
\<close>

lemma sample_skeleton_normal:
  "sample_skeleton E A anis n fh False label roi s =
     bind (process_paths E (skeleton_context E A anis fh False label roi s) (minpt roi) n
             (skel_paths E (vertices s) (edges s))
             \<lparr> areas = replicate (length (vertices s)) 0,
               contacts = replicate (length (vertices s)) 0, calls = [] \<rparr>)
       (\<lambda>st. Inr (s\<lparr> extra_attributes := append_prop (extra_attributes s),
                       cross_sectional_area_attr := Some (areas st),
                       cross_sectional_area_contacts := Some (contacts st) \<rparr>,
                   calls st))"
  by (simp add: sample_skeleton_def initial_arrays_def length_all_verts)

lemma skeleton_context_vertices:
  "vertices s' = vertices s \<Longrightarrow>
   skeleton_context E A anis fh rep label roi s' = skeleton_context E A anis fh rep label roi s"
  by (simp add: skeleton_context_def all_verts_def)

lemma sample_skeleton_normal_again:
  assumes "sample_skeleton E A anis n fh False label roi s = Inr (s', made)"
  shows "sample_skeleton E A anis n fh False label roi s' = Inr (s', made)"
proof -
  from assms obtain st where
    st: "process_paths E (skeleton_context E A anis fh False label roi s) (minpt roi) n
             (skel_paths E (vertices s) (edges s))
             \<lparr> areas = replicate (length (vertices s)) 0,
               contacts = replicate (length (vertices s)) 0, calls = [] \<rparr> = Inr st"
    and s': "s' = s\<lparr> extra_attributes := append_prop (extra_attributes s),
                       cross_sectional_area_attr := Some (areas st),
                       cross_sectional_area_contacts := Some (contacts st) \<rparr>"
    and made: "made = calls st"
    unfolding sample_skeleton_normal bind_Inr_iff by auto
  have v: "vertices s' = vertices s" "edges s' = edges s" by (simp_all add: s')
  show ?thesis
    unfolding sample_skeleton_normal skeleton_context_vertices [OF v(1)] v st bind_Inr
    by (simp add: s' made append_prop_idem)
qed

lemma resolve_roi_skel_id:
  "skel_id s' = skel_id s \<Longrightarrow> resolve_roi A rm sl s' = resolve_roi A rm sl s"
  by (simp add: resolve_roi_def)

lemma sample_skeleton_skel_id:
  "sample_skeleton E A anis n fh rep label roi s = Inr (s', made) \<Longrightarrow> skel_id s' = skel_id s"
  by (auto simp: sample_skeleton_def bind_Inr_iff)

lemma annotate_skeleton_normal_again:
  assumes "annotate_skeleton E A rm sl anis n fh False s = Inr (s', made)"
  shows "annotate_skeleton E A rm sl anis n fh False s' = Inr (s', made)"
proof (cases "resolve_roi A rm sl s")
  case (Inl e)
  with assms show ?thesis by (simp add: annotate_skeleton_def)
next
  case (Inr r)
  show ?thesis
  proof (cases r)
    case None
    with Inr assms have e: "s' = s" "made = []" by (simp_all add: annotate_skeleton_def)
    show ?thesis unfolding e using Inr None by (simp add: annotate_skeleton_def)
  next
    case (Some p)
    obtain label roi where p: "p = (label, roi)" by (cases p) auto
    from assms Inr Some p
    have ss: "sample_skeleton E A anis n fh False label roi s = Inr (s', made)"
      by (simp add: annotate_skeleton_def)
    have id: "skel_id s' = skel_id s" by (rule sample_skeleton_skel_id [OF ss])
    have "resolve_roi A rm sl s' = Inr (Some (label, roi))"
      unfolding resolve_roi_skel_id [OF id] using Inr Some p by simp
    then show ?thesis
      by (simp add: annotate_skeleton_def sample_skeleton_normal_again [OF ss])
  qed
qed

lemma annotate_all_normal_again:
  "annotate_all E A rm sl anis n fh False ss = Inr (ss', made)
   \<Longrightarrow> annotate_all E A rm sl anis n fh False ss' = Inr (ss', made) \<and> length ss' = length ss"
proof (induction ss arbitrary: ss' made)
  case Nil
  then show ?case by simp
next
  case (Cons s ss)
  from Cons.prems obtain s1 m1 rest m2 where
    a: "annotate_skeleton E A rm sl anis n fh False s = Inr (s1, m1)"
    and b: "annotate_all E A rm sl anis n fh False ss = Inr (rest, m2)"
    and c: "ss' = s1 # rest" "made = m1 @ m2"
    by (auto simp: bind_Inr_iff)
  from Cons.IH [OF b] annotate_skeleton_normal_again [OF a] c
  show ?case by simp
qed

text \<open>
  On a boolean volume, and with \<^verbatim>\<open>in_place=False\<close>, the call leaves the caller's volume
  as it was.
\<close>

lemma normalize_labels_keeps:
  "dtype_bool A \<or> \<not> in_place \<Longrightarrow> normalize_labels in_place A = (L, rm, A') \<Longrightarrow> A' = A"
  by (auto simp: normalize_labels_def split_def split: if_splits)

text \<open>The first normal-mode call on the line skeleton measures both vertices.\<close>

lemma line_skeleton_first_call:
  "cross_sectional_area sampler_five two_voxels (SkelSingle line_skeleton) (1, 1, 1) 1
     in_place False False
   = (Inr (SkelSingle line_skeleton_measured, [((0, 0, 0), (1, 0, 0)), ((1, 0, 0), (1, 0, 0))]),
      if in_place then two_voxels\<lparr>item := \<lambda>i. 1\<rparr> else two_voxels)"
  by (simp add: two_voxels_single skel_id_fixtures sample_line_skeleton)

text \<open>
  Claim C2, as the code has it. On a boolean volume, or with \<^verbatim>\<open>in_place=False\<close> (the
  default), the call leaves the caller's volume as it was, and a second normal-mode
  call with the same arguments, on the skeletons as the first call returned them,
  returns the same skeletons, with the same area and contacts arrays. It does so by
  measuring again: normal mode starts from fresh arrays of zeros (\<^verbatim>\<open>np.zeros\<close>), never
  from the stored ones, so the second call makes exactly the sampling calls of the
  first and skips nothing. (The sampling primitive is a function of its arguments.)
\<close>

theorem normal_mode_idempotent:
  assumes "cross_sectional_area E A skels anis n in_place fh False = (Inr (skels', made), A')"
    and "dtype_bool A \<or> \<not> in_place"
  shows "A' = A \<and>
         cross_sectional_area E A' skels' anis n in_place fh False = (Inr (skels', made), A')"
proof -
  obtain L rm A'' where p0: "normalize_labels in_place A = (L, rm, A'')"
    by (cases "normalize_labels in_place A") auto
  have "A'' = A" by (rule normalize_labels_keeps [OF assms(2) p0])
  with p0 have p: "normalize_labels in_place A = (L, rm, A)" by simp
  note u = cross_sectional_area_unfold [OF p]
  from assms(1) have A': "A' = A"
    and k0: "bind (find_objects L)
        (\<lambda>sl. bind (annotate_all E L rm sl anis n fh False (iterator skels))
                 (\<lambda>p. Inr (returned skels (fst p), snd p))) = Inr (skels', made)"
    unfolding u by simp_all
  from k0 obtain sl where sl: "find_objects L = Inr sl"
    and k: "bind (annotate_all E L rm sl anis n fh False (iterator skels))
              (\<lambda>p. Inr (returned skels (fst p), snd p)) = Inr (skels', made)"
    unfolding bind_Inr_iff by blast
  from k obtain q where q: "annotate_all E L rm sl anis n fh False (iterator skels) = Inr q"
    and q': "Inr (returned skels (fst q), snd q)
               = (Inr (skels', made) :: (skeletons \<times> (ivec3 \<times> vec3) list) result)"
    unfolding bind_Inr_iff by blast
  obtain dn where dn: "q = (dn, made)" and r: "skels' = returned skels dn"
    using q' by (cases q) simp
  have d: "annotate_all E L rm sl anis n fh False (iterator skels) = Inr (dn, made)"
    using q dn by simp
  from annotate_all_normal_again [OF d]
  have again: "annotate_all E L rm sl anis n fh False dn = Inr (dn, made)"
    and len: "length dn = length (iterator skels)" by simp_all
  have ne: "dn \<noteq> [] \<or> (\<forall>s. skels \<noteq> SkelSingle s)"
  proof (cases skels)
    case (SkelSingle s)
    with len show ?thesis by auto
  qed simp_all
  have it: "iterator (returned skels dn) = dn"
    by (rule iterator_returned [OF len ne])
  have "cross_sectional_area E A skels' anis n in_place fh False = (Inr (skels', made), A)"
    unfolding u r it sl bind_Inr again
    by (simp add: returned_returned [OF len])
  with A' show ?thesis by simp
qed

text \<open>The two calls on the line skeleton, with \<^verbatim>\<open>in_place=False\<close>.\<close>

theorem normal_mode_idempotent_witness:
  "cross_sectional_area sampler_five two_voxels (SkelSingle line_skeleton) (1, 1, 1) 1
     False False False
     = (Inr (SkelSingle line_skeleton_measured,
             [((0, 0, 0), (1, 0, 0)), ((1, 0, 0), (1, 0, 0))]), two_voxels) \<and>
   cross_sectional_area sampler_five two_voxels (SkelSingle line_skeleton_measured) (1, 1, 1) 1
     False False False
     = (Inr (SkelSingle line_skeleton_measured,
             [((0, 0, 0), (1, 0, 0)), ((1, 0, 0), (1, 0, 0))]), two_voxels)"
proof -
  have first: "cross_sectional_area sampler_five two_voxels (SkelSingle line_skeleton)
     (1, 1, 1) 1 False False False
     = (Inr (SkelSingle line_skeleton_measured,
             [((0, 0, 0), (1, 0, 0)), ((1, 0, 0), (1, 0, 0))]), two_voxels)"
    by (simp add: line_skeleton_first_call)
  have flag: "dtype_bool two_voxels \<or> \<not> False" by simp
  from normal_mode_idempotent [OF first flag] first show ?thesis by simp
qed

text \<open>
  The claim of the spec fails twice. Its reason fails: on the second call both vertices
  of the line skeleton carry the stored area 5, and both are handed to the sampling
  primitive again. And with \<^verbatim>\<open>in_place=True\<close> its conclusion fails: the first call
  leaves the caller's volume renumbered, with the label 1 where the label 7 was, and the
  second call with the same arguments ends with KeyError.
\<close>

theorem second_normal_call_samples_again:
  "cross_sectional_area_attr line_skeleton_measured = Some [5, 5] \<and>
   cross_sectional_area sampler_five two_voxels (SkelSingle line_skeleton_measured) (1, 1, 1) 1
     False False False
     = (Inr (SkelSingle line_skeleton_measured,
             [((0, 0, 0), (1, 0, 0)), ((1, 0, 0), (1, 0, 0))]), two_voxels) \<and>
   cross_sectional_area sampler_five two_voxels (SkelSingle line_skeleton) (1, 1, 1) 1
     True False False
     = (Inr (SkelSingle line_skeleton_measured,
             [((0, 0, 0), (1, 0, 0)), ((1, 0, 0), (1, 0, 0))]), two_voxels\<lparr>item := \<lambda>i. 1\<rparr>) \<and>
   cross_sectional_area sampler_five (two_voxels\<lparr>item := \<lambda>i. 1\<rparr>)
     (SkelSingle line_skeleton_measured) (1, 1, 1) 1 True False False
     = (Inl KeyError, two_voxels\<lparr>item := \<lambda>i. 1\<rparr>)"
proof (intro conjI)
  show "cross_sectional_area_attr line_skeleton_measured = Some [5, 5]"
    by (simp add: line_skeleton_measured_def)
  show "cross_sectional_area sampler_five two_voxels (SkelSingle line_skeleton_measured)
     (1, 1, 1) 1 False False False
     = (Inr (SkelSingle line_skeleton_measured,
             [((0, 0, 0), (1, 0, 0)), ((1, 0, 0), (1, 0, 0))]), two_voxels)"
    by (simp add: two_voxels_single skel_id_fixtures sample_line_skeleton_measured)
  show "cross_sectional_area sampler_five two_voxels (SkelSingle line_skeleton) (1, 1, 1) 1
     True False False
     = (Inr (SkelSingle line_skeleton_measured,
             [((0, 0, 0), (1, 0, 0)), ((1, 0, 0), (1, 0, 0))]), two_voxels\<lparr>item := \<lambda>i. 1\<rparr>)"
    by (simp add: line_skeleton_first_call)
  show "cross_sectional_area sampler_five (two_voxels\<lparr>item := \<lambda>i. 1\<rparr>)
     (SkelSingle line_skeleton_measured) (1, 1, 1) 1 True False False
     = (Inl KeyError, two_voxels\<lparr>item := \<lambda>i. 1\<rparr>)"
    unfolding cross_sectional_area_unfold [OF normalize_labels_two_voxels_again]
      find_objects_two_voxels
    by (simp add: annotate_skeleton_def resolve_roi_def two_voxels_def
        line_skeleton_measured_def line_skeleton_def)
qed

section \<open>Vertices in the same voxel\<close>


















text \<open>
  With a sampling primitive that returns the area 0, a position that the path comes back
  to is measured again: the area 0 it wrote reads as "not measured yet".
\<close>

lemma zero_area_is_measured_again:
  "sample_skeleton sampler_zero (two_voxels\<lparr>item := \<lambda>i. 1\<rparr>) (1, 1, 1) 1 False False 1
     \<lparr>minpt = (0, 0, 0), maxpt = (3, 2, 2)\<rparr> folded_skeleton
   = Inr (folded_skeleton\<lparr>extra_attributes := [prop_entry],
                          cross_sectional_area_attr := Some [0, 0, 0],
                          cross_sectional_area_contacts := Some [0, 0, 0]\<rparr>,
          [((0, 0, 0), (1, 0, 0)), ((1, 0, 0), (- 1, 0, 0)), ((0, 0, 0), (- 1, 0, 0))])"
  by (simp add: sampling_defs crop_two_voxels sampler_five_def sampler_zero_def line_skeleton_def
      folded_skeleton_def)





end
